theory Spec2Isabelle
  imports Complex_Main "HOL-Library.AList" "HOL-Library.Char_ord" "HOL-Library.List_Lexorder"
    "HOL-Library.Sublist"
begin

section \<open>JavaScript strings\<close>

text \<open>
  A JavaScript string is a sequence of UTF-16 code units. The model uses HOL strings, whose
  characters are the code units below 256 (ASCII and the Latin-1 supplement); on that range the
  functions below are the built-ins of the language. The order on characters is the order of
  the code units, and the order on strings is the lexicographic one that the comparison of
  two JavaScript strings computes.
\<close>

text \<open>\<^verbatim>\<open>String.prototype.toLowerCase\<close>: A-Z, and the capital letters of the Latin-1
  supplement (C0-DE apart from the multiplication sign D7), move up by 32.\<close>

definition lower_unit :: "char \<Rightarrow> char" where
  "lower_unit c =
     (let n = (of_char c :: nat)
      in if (65 \<le> n \<and> n \<le> 90) \<or> (192 \<le> n \<and> n \<le> 222 \<and> n \<noteq> 215)
         then char_of (n + 32) else c)"

definition toLowerCase :: "string \<Rightarrow> string" where
  "toLowerCase s = map lower_unit s"

text \<open>\<^verbatim>\<open>String.prototype.trim\<close> removes white space and line terminators at both ends:
  TAB, LF, VT, FF, CR, SPACE and NBSP are the ones below 256.\<close>

definition is_space :: "char \<Rightarrow> bool" where
  "is_space c = ((of_char c :: nat) \<in> {9, 10, 11, 12, 13, 32, 160})"

definition trim :: "string \<Rightarrow> string" where
  "trim s = rev (dropWhile is_space (rev (dropWhile is_space s)))"

text \<open>\<^verbatim>\<open>s.includes(t)\<close>: \<open>t\<close> occurs in \<open>s\<close> as a contiguous run of code units.\<close>

fun js_includes :: "string \<Rightarrow> string \<Rightarrow> bool" where
  "js_includes [] t = (t = [])"
| "js_includes (c # cs) t = (prefix t (c # cs) \<or> js_includes cs t)"

text \<open>\<^verbatim>\<open>s.split(' ')\<close>: the pieces between single spaces; never the empty array.\<close>

fun split_space :: "string \<Rightarrow> string list" where
  "split_space [] = ['''']"
| "split_space (c # cs) =
     (if c = CHR '' '' then [] # split_space cs
      else (case split_space cs of
              [] \<Rightarrow> [c # []]
            | w # ws \<Rightarrow> (c # w) # ws))"

text \<open>\<^verbatim>\<open>s.replace(/x/g, r)\<close> for a one-character pattern \<open>x\<close> and a replacement without
  \<^verbatim>\<open>$\<close>: every occurrence of \<open>x\<close> becomes \<open>r\<close>.\<close>

definition replace_all :: "char \<Rightarrow> string \<Rightarrow> string \<Rightarrow> string" where
  "replace_all x r s = concat (map (\<lambda>c. if c = x then r else [c]) s)"

section \<open>The archive page: escaping\<close>

text \<open>
  \<^verbatim>\<open>
  function escapeHtml(unsafe) {
      return unsafe
          .replace(/&/g, "&amp;")
          .replace(/</g, "&lt;")
          .replace(/>/g, "&gt;")
          .replace(/"/g, "&quot;")
          .replace(/'/g, "&#039;");
  }
  \<close>
\<close>

definition escapeHtml :: "string \<Rightarrow> string" where
  "escapeHtml unsafe =
     replace_all (CHR 0x27) ''&#039;''
       (replace_all (CHR 0x22) ''&quot;''
         (replace_all (CHR ''>'') ''&gt;''
           (replace_all (CHR ''<'') ''&lt;''
             (replace_all (CHR ''&'') ''&amp;'' unsafe))))"

section \<open>JavaScript values\<close>

text \<open>
  The catalog travels as JSON, and the code tests at run time what it was given
  (\<^verbatim>\<open>typeof\<close>, \<^verbatim>\<open>Array.isArray\<close>, truthiness), so the values are the JSON values. An object
  is the list of its properties; a property that is absent reads as \<^verbatim>\<open>undefined\<close>, which is
  \<open>None\<close> here. A number is the value the parser produced; the code only ever asks whether
  it is zero.
\<close>

datatype json =
    JNull
  | JBool bool
  | JNum real
  | JStr string
  | JArr "json list"
  | JObj "(string \<times> json) list"

text \<open>What a statement can throw: a \<^verbatim>\<open>TypeError\<close> (a property of \<^verbatim>\<open>null\<close> or
  \<^verbatim>\<open>undefined\<close>, a method the value does not have), a \<^verbatim>\<open>SyntaxError\<close> of
  \<^verbatim>\<open>JSON.parse\<close>, a file system error whose code is \<^verbatim>\<open>ENOENT\<close> or is another one, and
  \<^verbatim>\<open>new Error(m)\<close>, which is \<open>Thrown m\<close>.\<close>

datatype error = TypeError | SyntaxError | ENOENT | OtherCode | Thrown string

text \<open>Reading a property \<^verbatim>\<open>v.k\<close> for the names the code reads (\<^verbatim>\<open>title\<close>, \<^verbatim>\<open>file\<close>,
  \<^verbatim>\<open>tags\<close>): \<^verbatim>\<open>null\<close> has no properties and the read throws; a string, number, boolean or
  array has none of these names.\<close>

fun get_prop :: "json \<Rightarrow> string \<Rightarrow> error + json option" where
  "get_prop JNull k = Inl TypeError"
| "get_prop (JObj fs) k = Inr (map_of fs k)"
| "get_prop v k = Inr None"

fun truthy :: "json option \<Rightarrow> bool" where
  "truthy None = False"
| "truthy (Some JNull) = False"
| "truthy (Some (JBool b)) = b"
| "truthy (Some (JNum x)) = (x \<noteq> 0)"
| "truthy (Some (JStr s)) = (s \<noteq> [])"
| "truthy (Some (JArr xs)) = True"
| "truthy (Some (JObj fs)) = True"

text \<open>The method call \<^verbatim>\<open>v.toLowerCase()\<close>: only a string has the method.\<close>

fun call_toLowerCase :: "json option \<Rightarrow> error + string" where
  "call_toLowerCase (Some (JStr s)) = Inr (toLowerCase s)"
| "call_toLowerCase v = Inl TypeError"

text \<open>\<^verbatim>\<open>Array.prototype.some\<close>, \<^verbatim>\<open>filter\<close>, \<^verbatim>\<open>find\<close> and \<^verbatim>\<open>findIndex\<close> with a callback that
  may throw: the elements are visited in order, and the first exception ends the call.\<close>

fun js_some :: "('a \<Rightarrow> error + bool) \<Rightarrow> 'a list \<Rightarrow> error + bool" where
  "js_some f [] = Inr False"
| "js_some f (x # xs) =
     (case f x of
        Inl e \<Rightarrow> Inl e
      | Inr b \<Rightarrow> if b then Inr True else js_some f xs)"

fun js_filter :: "('a \<Rightarrow> error + bool) \<Rightarrow> 'a list \<Rightarrow> error + 'a list" where
  "js_filter f [] = Inr []"
| "js_filter f (x # xs) =
     (case f x of
        Inl e \<Rightarrow> Inl e
      | Inr b \<Rightarrow>
          (case js_filter f xs of
             Inl e \<Rightarrow> Inl e
           | Inr ys \<Rightarrow> Inr (if b then x # ys else ys)))"

fun js_find :: "('a \<Rightarrow> error + bool) \<Rightarrow> 'a list \<Rightarrow> error + 'a option" where
  "js_find f [] = Inr None"
| "js_find f (x # xs) =
     (case f x of
        Inl e \<Rightarrow> Inl e
      | Inr b \<Rightarrow> if b then Inr (Some x) else js_find f xs)"

text \<open>\<^verbatim>\<open>findIndex\<close> answers \<open>-1\<close> when no element passes: \<open>None\<close> here.\<close>

fun js_findIndex :: "('a \<Rightarrow> error + bool) \<Rightarrow> 'a list \<Rightarrow> error + nat option" where
  "js_findIndex f [] = Inr None"
| "js_findIndex f (x # xs) =
     (case f x of
        Inl e \<Rightarrow> Inl e
      | Inr b \<Rightarrow>
          if b then Inr (Some 0)
          else (case js_findIndex f xs of
                  Inl e \<Rightarrow> Inl e
                | Inr None \<Rightarrow> Inr None
                | Inr (Some i) \<Rightarrow> Inr (Some (Suc i))))"

text \<open>\<^verbatim>\<open>project.tags && project.tags.some(cb)\<close>: a falsy \<^verbatim>\<open>tags\<close> is the (falsy) result;
  a truthy one that is not an array has no method \<^verbatim>\<open>some\<close>.\<close>

definition tags_some :: "(json \<Rightarrow> error + bool) \<Rightarrow> json option \<Rightarrow> error + bool" where
  "tags_some cb tags =
     (if \<not> truthy tags then Inr False
      else (case tags of
              Some (JArr xs) \<Rightarrow> js_some cb xs
            | _ \<Rightarrow> Inl TypeError))"

section \<open>The archive page: catalog view\<close>

text \<open>The module state of the page: the snapshot that was fetched, the list derived from it
  and the set of active tag filters.\<close>

record view =
  allProjects :: "json list"
  filteredProjects :: "json list"
  activeTagFilters :: "string set"

text \<open>
  \<^verbatim>\<open>
  allProjects.forEach(project => {
      if (project.tags && Array.isArray(project.tags)) {
          project.tags.forEach(tag => {
              allTags.add(tag.toLowerCase().trim());
          });
      }
  });
  const sortedTags = Array.from(allTags).sort();
  \<close>
  A \<^verbatim>\<open>Set\<close> keeps its members in the order of their first insertion. The default
  \<^verbatim>\<open>sort\<close> puts strings in the order of their code units. The function returns
  \<^verbatim>\<open>sortedTags\<close>, the texts of the filter controls in the order they are appended.
\<close>

definition set_add :: "string \<Rightarrow> string list \<Rightarrow> string list" where
  "set_add x xs = (if x \<in> set xs then xs else xs @ [x])"

fun add_tags :: "json list \<Rightarrow> string list \<Rightarrow> error + string list" where
  "add_tags [] allTags = Inr allTags"
| "add_tags (tag # tags) allTags =
     (case call_toLowerCase (Some tag) of
        Inl e \<Rightarrow> Inl e
      | Inr l \<Rightarrow> add_tags tags (set_add (trim l) allTags))"

fun collect_tags :: "json list \<Rightarrow> string list \<Rightarrow> error + string list" where
  "collect_tags [] allTags = Inr allTags"
| "collect_tags (project # projects) allTags =
     (case get_prop project ''tags'' of
        Inl e \<Rightarrow> Inl e
      | Inr tags \<Rightarrow>
          (case (if truthy tags then tags else None) of
             Some (JArr ts) \<Rightarrow>
               (case add_tags ts allTags of
                  Inl e \<Rightarrow> Inl e
                | Inr allTags' \<Rightarrow> collect_tags projects allTags')
           | _ \<Rightarrow> collect_tags projects allTags))"

definition renderTagFilters :: "view \<Rightarrow> error + string list" where
  "renderTagFilters v =
     (case collect_tags (allProjects v) [] of
        Inl e \<Rightarrow> Inl e
      | Inr allTags \<Rightarrow> Inr (sort allTags))"

text \<open>
  \<^verbatim>\<open>
  const searchTerm = searchInput.value.toLowerCase().trim();
  filteredProjects = allProjects.filter(project => {
      const titleMatch = project.title.toLowerCase().includes(searchTerm);
      const tagMatch = project.tags && project.tags.some(tag =>
          tag.toLowerCase().includes(searchTerm));
      const searchMatch = searchTerm === '' || titleMatch || tagMatch;
      const tagFilterMatch = activeTagFilters.size === 0 ||
          (project.tags && project.tags.some(tag =>
              activeTagFilters.has(tag.toLowerCase().trim())));
      return searchMatch && tagFilterMatch;
  });
  \<close>
  \<open>keep_project\<close> is the callback; \<open>filterProjects\<close> takes the text of the search box.
\<close>

definition keep_project :: "string \<Rightarrow> string set \<Rightarrow> json \<Rightarrow> error + bool" where
  "keep_project searchTerm active project =
     (case get_prop project ''title'' of
        Inl e \<Rightarrow> Inl e
      | Inr title \<Rightarrow>
     (case call_toLowerCase title of
        Inl e \<Rightarrow> Inl e
      | Inr lowered \<Rightarrow>
     (let titleMatch = js_includes lowered searchTerm in
     (case get_prop project ''tags'' of
        Inl e \<Rightarrow> Inl e
      | Inr tags \<Rightarrow>
     (case tags_some (\<lambda>tag. case call_toLowerCase (Some tag) of
                               Inl e \<Rightarrow> Inl e
                             | Inr l \<Rightarrow> Inr (js_includes l searchTerm)) tags of
        Inl e \<Rightarrow> Inl e
      | Inr tagMatch \<Rightarrow>
     (let searchMatch = (searchTerm = [] \<or> titleMatch \<or> tagMatch) in
     (case (if active = {} then Inr True
            else tags_some (\<lambda>tag. case call_toLowerCase (Some tag) of
                                     Inl e \<Rightarrow> Inl e
                                   | Inr l \<Rightarrow> Inr (trim l \<in> active)) tags) of
        Inl e \<Rightarrow> Inl e
      | Inr tagFilterMatch \<Rightarrow> Inr (searchMatch \<and> tagFilterMatch))))))))"

definition filterProjects :: "view \<Rightarrow> string \<Rightarrow> error + view" where
  "filterProjects v searchInput =
     (let searchTerm = trim (toLowerCase searchInput)
      in case js_filter (keep_project searchTerm (activeTagFilters v)) (allProjects v) of
           Inl e \<Rightarrow> Inl e
         | Inr kept \<Rightarrow> Inr (v\<lparr>filteredProjects := kept\<rparr>))"

text \<open>
  \<^verbatim>\<open>
  function toggleTagFilter(tag, element) {
      if (activeTagFilters.has(tag)) { activeTagFilters.delete(tag); ... }
      else { activeTagFilters.add(tag); ... }
      filterProjects();
  }
  \<close>
\<close>

definition toggleTagFilter :: "view \<Rightarrow> string \<Rightarrow> string \<Rightarrow> error + view" where
  "toggleTagFilter v tag searchInput =
     filterProjects
       (if tag \<in> activeTagFilters v
        then v\<lparr>activeTagFilters := activeTagFilters v - {tag}\<rparr>
        else v\<lparr>activeTagFilters := insert tag (activeTagFilters v)\<rparr>)
       searchInput"

subsection \<open>Records as the specification reads them\<close>

text \<open>
  A project record is an object whose \<^verbatim>\<open>title\<close> is a string and whose \<^verbatim>\<open>tags\<close>, when
  present, is an array of strings. \<open>record_title\<close> and \<open>record_tags\<close> read the two fields of
  such a record; a record without tags has the empty sequence of tags.
\<close>

fun is_string :: "json \<Rightarrow> bool" where
  "is_string (JStr s) = True"
| "is_string v = False"

fun the_string :: "json \<Rightarrow> string" where
  "the_string (JStr s) = s"
| "the_string v = []"

fun wf_record :: "json \<Rightarrow> bool" where
  "wf_record (JObj fs) =
     (case map_of fs ''title'' of
        Some (JStr s) \<Rightarrow>
          (case map_of fs ''tags'' of
             Some (JArr ts) \<Rightarrow> list_all is_string ts
           | tags \<Rightarrow> \<not> truthy tags)
      | _ \<Rightarrow> False)"
| "wf_record v = False"

text \<open>\<open>has_title\<close>: the value is an object whose \<^verbatim>\<open>title\<close> is a string.\<close>

fun has_title :: "json \<Rightarrow> bool" where
  "has_title (JObj fs) = (case map_of fs ''title'' of Some (JStr s) \<Rightarrow> True | _ \<Rightarrow> False)"
| "has_title v = False"

fun record_title :: "json \<Rightarrow> string" where
  "record_title (JObj fs) = (case map_of fs ''title'' of Some (JStr s) \<Rightarrow> s | _ \<Rightarrow> [])"
| "record_title v = []"

fun record_tags :: "json \<Rightarrow> string list" where
  "record_tags (JObj fs) =
     (case map_of fs ''tags'' of Some (JArr ts) \<Rightarrow> map the_string ts | _ \<Rightarrow> [])"
| "record_tags v = []"

text \<open>The inclusion rule of the specification, with the tag filter comparing the case-folded
  and trimmed tag: the predicate that \<open>filterProjects\<close> is compared with.\<close>

definition recompute_includes :: "string \<Rightarrow> string set \<Rightarrow> json \<Rightarrow> bool" where
  "recompute_includes searchTerm active p =
     ((searchTerm = [] \<or> sublist searchTerm (toLowerCase (record_title p)) \<or>
       (\<exists>t \<in> set (record_tags p). sublist searchTerm (toLowerCase t))) \<and>
      (active = {} \<or> (\<exists>t \<in> set (record_tags p). trim (toLowerCase t) \<in> active)))"

text \<open>The tag vocabulary of the specification: every tag of every record, case-folded and
  trimmed.\<close>

definition tag_vocabulary :: "json list \<Rightarrow> string set" where
  "tag_vocabulary ps = (\<Union>p \<in> set ps. (\<lambda>t. trim (toLowerCase t)) ` set (record_tags p))"

subsection \<open>The project card\<close>

text \<open>
  \<^verbatim>\<open>
  const title = project.title || 'Untitled Project';
  const tags = Array.isArray(project.tags) ? project.tags : [];
  const file = project.file || '#';
  card.innerHTML = `
      <h3 class="project-title">${escapeHtml(title)}</h3>
      <div class="project-tags">
          ${tags.map(tag => `<span class="project-tag">${escapeHtml(tag)}</span>`).join('')}
      </div>
      <a href="${escapeHtml(file)}" target="_blank" class="view-pdf-btn">View PDF</a>
  `;
  \<close>
  \<open>createProjectCard\<close> returns the markup assigned to \<^verbatim>\<open>innerHTML\<close>, with the line breaks
  and the indentation of the template. \<^verbatim>\<open>escapeHtml\<close> calls \<^verbatim>\<open>unsafe.replace\<close>, which
  only a string has.
\<close>

fun call_escapeHtml :: "json \<Rightarrow> error + string" where
  "call_escapeHtml (JStr s) = Inr (escapeHtml s)"
| "call_escapeHtml v = Inl TypeError"

definition or_default :: "json option \<Rightarrow> string \<Rightarrow> json" where
  "or_default v dflt =
     (case v of
        Some j \<Rightarrow> if truthy v then j else JStr dflt
      | None \<Rightarrow> JStr dflt)"

fun tag_spans :: "json list \<Rightarrow> error + string" where
  "tag_spans [] = Inr []"
| "tag_spans (tag # tags) =
     (case call_escapeHtml tag of
        Inl e \<Rightarrow> Inl e
      | Inr t \<Rightarrow>
          (case tag_spans tags of
             Inl e \<Rightarrow> Inl e
           | Inr rest \<Rightarrow> Inr (''<span class=\"project-tag\">'' @ t @ ''</span>'' @ rest)))"

definition createProjectCard :: "json \<Rightarrow> error + string" where
  "createProjectCard project =
     (case get_prop project ''title'' of
        Inl e \<Rightarrow> Inl e
      | Inr t \<Rightarrow>
     (case get_prop project ''tags'' of
        Inl e \<Rightarrow> Inl e
      | Inr tg \<Rightarrow>
     (case get_prop project ''file'' of
        Inl e \<Rightarrow> Inl e
      | Inr f \<Rightarrow>
     (let title = or_default t ''Untitled Project'';
          tags = (case tg of Some (JArr ts) \<Rightarrow> ts | _ \<Rightarrow> []);
          file = or_default f ''#''
      in case call_escapeHtml title of
           Inl e \<Rightarrow> Inl e
         | Inr title' \<Rightarrow>
        (case tag_spans tags of
           Inl e \<Rightarrow> Inl e
         | Inr spans \<Rightarrow>
        (case call_escapeHtml file of
           Inl e \<Rightarrow> Inl e
         | Inr file' \<Rightarrow>
             Inr (''\<newline>        <h3 class=\"project-title\">'' @ title' @ ''</h3>\<newline>'' @
                  ''        <div class=\"project-tags\">\<newline>            '' @ spans @
                  ''\<newline>        </div>\<newline>'' @
                  ''        <a href=\"'' @ file' @
                  ''\" target=\"_blank\" class=\"view-pdf-btn\">View PDF</a>\<newline>    '')))))))"

section \<open>The admin server\<close>

text \<open>The Express application: the JSON parser and the error middleware it installs, its
  two middlewares \<^verbatim>\<open>authenticateToken\<close> and \<^verbatim>\<open>validateProject\<close>, its file access, and the
  handlers of the routes it registers, \<^verbatim>\<open>GET /api/projects\<close>, \<^verbatim>\<open>POST /api/projects\<close> and
  \<^verbatim>\<open>DELETE /api/projects/:title\<close>.\<close>

subsection \<open>Environment, files and responses\<close>

text \<open>
  What a request finds outside the program: the configured secret, the clock, the two
  built-ins \<^verbatim>\<open>new URL(s)\<close> and \<^verbatim>\<open>decodeURIComponent(s)\<close>, and whether the file system
  lets the backup copy and the write go through. \<open>url_parses s\<close> holds when \<^verbatim>\<open>new URL(s)\<close>
  does not throw; \<open>decode_uri s\<close> is \<open>None\<close> when \<^verbatim>\<open>decodeURIComponent(s)\<close> throws.
  \<open>empty_body\<close> is \<^verbatim>\<open>req.body\<close> when the JSON parser found nothing to parse: the empty
  object (\<open>Some []\<close>) under Express 4, \<^verbatim>\<open>undefined\<close> (\<open>None\<close>) under Express 5; the sources
  do not fix the version.
  A write that fails may leave anything behind: \<open>write_result\<close> is \<open>None\<close> when
  \<^verbatim>\<open>writeFile\<close> succeeds and \<open>Some st\<close> when it throws and leaves the file in state \<open>st\<close>.
\<close>

datatype file_state =
    Absent
  | Unreadable
  | Malformed
  | Doc json

text \<open>\<open>Absent\<close>: reading fails with code \<^verbatim>\<open>ENOENT\<close>. \<open>Unreadable\<close>: reading fails with
  another code. \<open>Malformed\<close>: the text is not JSON. \<open>Doc v\<close>: the text parses to \<open>v\<close>;
  writing \<^verbatim>\<open>JSON.stringify(v)\<close> leaves the file in state \<open>Doc v\<close>.\<close>

record env =
  SECRET_TOKEN_var :: "string option"
  url_parses :: "string \<Rightarrow> bool"
  decode_uri :: "string \<Rightarrow> string option"
  now_iso :: string
  now_ms :: nat
  copy_fails :: bool
  write_result :: "file_state option"
  empty_body :: "(string \<times> json) list option"

record disk =
  projects_file :: file_state
  backups :: "(nat \<times> file_state) list"

datatype io_op = ReadFile | CopyFile | WriteFile

record response =
  status :: nat
  body :: json

text \<open>What a request leaves: the response, the files, and the file operations it attempted,
  in order.\<close>

record outcome =
  response :: response
  disk_after :: disk
  ops :: "io_op list"

text \<open>\<^verbatim>\<open>const SECRET_TOKEN = process.env.SECRET_TOKEN || 'your-secret-token-here';\<close>\<close>

definition SECRET_TOKEN :: "env \<Rightarrow> string" where
  "SECRET_TOKEN env =
     (case SECRET_TOKEN_var env of
        None \<Rightarrow> ''your-secret-token-here''
      | Some s \<Rightarrow> if s = [] then ''your-secret-token-here'' else s)"

definition error_body :: "string \<Rightarrow> string \<Rightarrow> json" where
  "error_body e m = JObj [(''error'', JStr e), (''message'', JStr m)]"

subsection \<open>Authentication\<close>

text \<open>
  \<^verbatim>\<open>
  const authHeader = req.headers['authorization'];
  const token = authHeader && authHeader.split(' ')[1]; // Bearer TOKEN
  if (!token) { return res.status(401).json({...}); }
  if (token !== SECRET_TOKEN) { return res.status(403).json({...}); }
  next();
  \<close>
  \<open>bearer_token\<close> is \<^verbatim>\<open>token\<close>, with \<open>None\<close> for \<^verbatim>\<open>undefined\<close>. The middleware answers
  (\<open>Inl\<close>) or calls \<^verbatim>\<open>next()\<close> (\<open>Inr\<close>).
\<close>

definition nth_opt :: "'a list \<Rightarrow> nat \<Rightarrow> 'a option" where
  "nth_opt xs i = (if i < length xs then Some (xs ! i) else None)"

definition bearer_token :: "string option \<Rightarrow> string option" where
  "bearer_token authHeader =
     (case authHeader of
        None \<Rightarrow> None
      | Some h \<Rightarrow> if h = [] then Some [] else nth_opt (split_space h) 1)"

definition authenticateToken :: "env \<Rightarrow> string option \<Rightarrow> response + unit" where
  "authenticateToken env authHeader =
     (let token = bearer_token authHeader
      in if token = None \<or> token = Some [] then
           Inl \<lparr>status = 401,
                body = error_body ''Access token is required''
                  ''Please provide a valid authorization token in the header''\<rparr>
         else if token \<noteq> Some (SECRET_TOKEN env) then
           Inl \<lparr>status = 403,
                body = error_body ''Invalid access token'' ''The provided token is not valid''\<rparr>
         else Inr ())"

subsection \<open>Validation\<close>

text \<open>\<^verbatim>\<open>typeof x === 'string'\<close>, and the string that such an \<open>x\<close> is.\<close>

fun typeof_string :: "json option \<Rightarrow> bool" where
  "typeof_string (Some (JStr s)) = True"
| "typeof_string v = False"

fun string_of :: "json option \<Rightarrow> string" where
  "string_of (Some (JStr s)) = s"
| "string_of v = []"

text \<open>\<^verbatim>\<open>!x || typeof x !== 'string' || !x.trim()\<close>\<close>

definition missing_or_blank :: "json option \<Rightarrow> bool" where
  "missing_or_blank x = (\<not> truthy x \<or> \<not> typeof_string x \<or> trim (string_of x) = [])"

fun is_array :: "json option \<Rightarrow> bool" where
  "is_array (Some (JArr xs)) = True"
| "is_array v = False"

text \<open>
  \<^verbatim>\<open>
  Array.isArray(tags) ? tags.filter(tag =>
      typeof tag === 'string' && tag.trim().length > 0
  ).map(tag => tag.trim()) : []
  \<close>
\<close>

fun nonblank_string :: "json \<Rightarrow> bool" where
  "nonblank_string (JStr s) = (0 < length (trim s))"
| "nonblank_string v = False"

fun normalize_tags :: "json option \<Rightarrow> json list" where
  "normalize_tags (Some (JArr tags)) =
     map (\<lambda>tag. JStr (trim (the_string tag))) (filter nonblank_string tags)"
| "normalize_tags v = []"

text \<open>
  \<^verbatim>\<open>validateProject\<close> reads \<^verbatim>\<open>title\<close>, \<^verbatim>\<open>file\<close> and \<^verbatim>\<open>tags\<close> from the body, which
  is an object, answers 400 at the first check that fails, and otherwise replaces the body
  by the normalized object and calls \<^verbatim>\<open>next()\<close>.
\<close>

definition validateProject :: "env \<Rightarrow> (string \<times> json) list \<Rightarrow> response + (string \<times> json) list" where
  "validateProject env reqBody =
     (let title = map_of reqBody ''title'';
          file = map_of reqBody ''file'';
          tags = map_of reqBody ''tags''
      in if missing_or_blank title then
           Inl \<lparr>status = 400,
                body = error_body ''Invalid title''
                  ''Project title is required and must be a non-empty string''\<rparr>
         else if missing_or_blank file then
           Inl \<lparr>status = 400,
                body = error_body ''Invalid file''
                  ''File URL is required and must be a non-empty string''\<rparr>
         else if \<not> url_parses env (string_of file) then
           Inl \<lparr>status = 400,
                body = error_body ''Invalid file URL'' ''File must be a valid URL''\<rparr>
         else if tags \<noteq> None \<and> \<not> is_array tags then
           Inl \<lparr>status = 400,
                body = error_body ''Invalid tags'' ''Tags must be an array of strings''\<rparr>
         else
           Inr [(''title'', JStr (trim (string_of title))),
                (''file'', JStr (trim (string_of file))),
                (''tags'', JArr (normalize_tags tags))])"

subsection \<open>Reading and writing the projects file\<close>

text \<open>\<^verbatim>\<open>await fs.readFile(PROJECTS_FILE, 'utf8')\<close> followed by \<^verbatim>\<open>JSON.parse(data)\<close>.\<close>

fun read_and_parse :: "file_state \<Rightarrow> error + json" where
  "read_and_parse Absent = Inl ENOENT"
| "read_and_parse Unreadable = Inl OtherCode"
| "read_and_parse Malformed = Inl SyntaxError"
| "read_and_parse (Doc v) = Inr v"

text \<open>
  \<^verbatim>\<open>
  try {
      const data = await fs.readFile(PROJECTS_FILE, 'utf8');
      const projects = JSON.parse(data);
      if (!Array.isArray(projects)) {
          throw new Error('Projects file does not contain a valid array');
      }
      return projects;
  } catch (error) {
      if (error.code === 'ENOENT') { return []; }
      throw new Error('Failed to read projects file');
  }
  \<close>
\<close>

definition readProjects :: "disk \<Rightarrow> error + json list" where
  "readProjects d =
     (case (case read_and_parse (projects_file d) of
              Inl e \<Rightarrow> Inl e
            | Inr (JArr projects) \<Rightarrow> Inr projects
            | Inr v \<Rightarrow> Inl (Thrown ''Projects file does not contain a valid array'')) of
        Inr projects \<Rightarrow> Inr projects
      | Inl e \<Rightarrow> if e = ENOENT then Inr [] else Inl (Thrown ''Failed to read projects file''))"

text \<open>
  \<^verbatim>\<open>
  try {
      try {
          const backupFile = `${PROJECTS_FILE}.backup.${Date.now()}`;
          await fs.copyFile(PROJECTS_FILE, backupFile);
      } catch (backupError) {
          if (backupError.code !== 'ENOENT') { console.warn(...); }
      }
      const data = JSON.stringify(projects, null, 2);
      await fs.writeFile(PROJECTS_FILE, data, 'utf8');
  } catch (error) {
      throw new Error('Failed to write projects file');
  }
  \<close>
  A backup that fails changes nothing and stops nothing.
\<close>

definition backup :: "env \<Rightarrow> disk \<Rightarrow> disk" where
  "backup env d =
     (case projects_file d of
        Absent \<Rightarrow> d
      | Unreadable \<Rightarrow> d
      | st \<Rightarrow> if copy_fails env then d else d\<lparr>backups := (now_ms env, st) # backups d\<rparr>)"

definition writeProjects :: "env \<Rightarrow> disk \<Rightarrow> json list \<Rightarrow> (error + unit) \<times> disk" where
  "writeProjects env d projects =
     (let d' = backup env d
      in case write_result env of
           None \<Rightarrow> (Inr (), d'\<lparr>projects_file := Doc (JArr projects)\<rparr>)
         | Some st \<Rightarrow> (Inl (Thrown ''Failed to write projects file''), d'\<lparr>projects_file := st\<rparr>))"

subsection \<open>The routes\<close>

definition internal_error :: "string \<Rightarrow> response" where
  "internal_error m = \<lparr>status = 500, body = error_body ''Internal server error'' m\<rparr>"

text \<open>The handler of \<^verbatim>\<open>GET /api/projects\<close>.\<close>

definition GET_api_projects :: "disk \<Rightarrow> outcome" where
  "GET_api_projects d =
     \<lparr>response =
        (case readProjects d of
           Inr projects \<Rightarrow>
             \<lparr>status = 200,
              body = JObj [(''success'', JBool True), (''projects'', JArr projects),
                           (''count'', JNum (real (length projects)))]\<rparr>
         | Inl e \<Rightarrow> internal_error ''Failed to retrieve projects''),
      disk_after = d, ops = [ReadFile]\<rparr>"

text \<open>The callback of \<^verbatim>\<open>find\<close> and \<^verbatim>\<open>findIndex\<close>:
  \<^verbatim>\<open>p => p.title.toLowerCase() === t.toLowerCase()\<close>, where \<open>t\<close> is the value of
  \<^verbatim>\<open>newProject.title\<close> or the string \<^verbatim>\<open>titleToDelete\<close>.\<close>

definition same_title :: "json option \<Rightarrow> json \<Rightarrow> error + bool" where
  "same_title t p =
     (case get_prop p ''title'' of
        Inl e \<Rightarrow> Inl e
      | Inr title \<Rightarrow>
          (case call_toLowerCase title of
             Inl e \<Rightarrow> Inl e
           | Inr l \<Rightarrow>
               (case call_toLowerCase t of
                  Inl e \<Rightarrow> Inl e
                | Inr l' \<Rightarrow> Inr (l = l'))))"

text \<open>
  The handler of \<^verbatim>\<open>POST /api/projects\<close>, which runs on the body that \<^verbatim>\<open>validateProject\<close>
  left. Everything thrown inside is caught and answered with 500.
  \<^verbatim>\<open>
  const newProject = req.body;
  const projects = await readProjects();
  const existingProject = projects.find(p =>
      p.title.toLowerCase() === newProject.title.toLowerCase());
  if (existingProject) { return res.status(409).json({...}); }
  newProject.createdAt = new Date().toISOString();
  projects.push(newProject);
  await writeProjects(projects);
  res.status(201).json({ success: true, message: 'Project added successfully',
      project: newProject, totalProjects: projects.length });
  \<close>
\<close>

definition post_handler :: "env \<Rightarrow> disk \<Rightarrow> (string \<times> json) list \<Rightarrow> outcome" where
  "post_handler env d newProject =
     (case readProjects d of
        Inl e \<Rightarrow>
          \<lparr>response = internal_error ''Failed to add project'', disk_after = d, ops = [ReadFile]\<rparr>
      | Inr projects \<Rightarrow>
     (case js_find (same_title (map_of newProject ''title'')) projects of
        Inl e \<Rightarrow>
          \<lparr>response = internal_error ''Failed to add project'', disk_after = d, ops = [ReadFile]\<rparr>
      | Inr (Some existingProject) \<Rightarrow>
          \<lparr>response = \<lparr>status = 409,
                        body = error_body ''Duplicate project''
                          ''A project with this title already exists''\<rparr>,
           disk_after = d, ops = [ReadFile]\<rparr>
      | Inr None \<Rightarrow>
     (let stored = AList.update ''createdAt'' (JStr (now_iso env)) newProject;
          projects' = projects @ [JObj stored]
      in case writeProjects env d projects' of
           (Inl e, d') \<Rightarrow>
             \<lparr>response = internal_error ''Failed to add project'', disk_after = d',
              ops = [ReadFile, CopyFile, WriteFile]\<rparr>
         | (Inr u, d') \<Rightarrow>
             \<lparr>response = \<lparr>status = 201,
                           body = JObj [(''success'', JBool True),
                                        (''message'', JStr ''Project added successfully''),
                                        (''project'', JObj stored),
                                        (''totalProjects'', JNum (real (length projects')))]\<rparr>,
              disk_after = d', ops = [ReadFile, CopyFile, WriteFile]\<rparr>)))"

text \<open>The append operation of the store: validation, then the handler.
  \<open>record_as_stored\<close> is what the operation makes of a candidate that it accepts: the title
  and the file trimmed, the tags normalized, and the time of the call as \<^verbatim>\<open>createdAt\<close>.\<close>

definition record_as_stored :: "env \<Rightarrow> (string \<times> json) list \<Rightarrow> json" where
  "record_as_stored env reqBody =
     JObj [(''title'', JStr (trim (string_of (map_of reqBody ''title'')))),
           (''file'', JStr (trim (string_of (map_of reqBody ''file'')))),
           (''tags'', JArr (normalize_tags (map_of reqBody ''tags''))),
           (''createdAt'', JStr (now_iso env))]"

definition append_record :: "env \<Rightarrow> disk \<Rightarrow> (string \<times> json) list \<Rightarrow> outcome" where
  "append_record env d reqBody =
     (case validateProject env reqBody of
        Inl r \<Rightarrow> \<lparr>response = r, disk_after = d, ops = []\<rparr>
      | Inr newProject \<Rightarrow> post_handler env d newProject)"

text \<open>
  What comes before the middlewares of a route. \<^verbatim>\<open>app.use(express.json())\<close> sees every
  request first. \<open>BadJson\<close>: the parser fails, on a body that is announced as JSON and does
  not parse, is neither an object nor an array, or is too large. \<open>Json fs\<close>: it leaves the
  object it parsed, with the properties \<open>fs\<close>, in \<^verbatim>\<open>req.body\<close>; an array has none of the
  properties that are read later and counts as the object without properties. \<open>NoJson\<close>:
  there is no JSON body and the parser does nothing.
  Whatever a middleware throws or passes to \<^verbatim>\<open>next\<close> reaches the error middleware of the
  application:
  \<^verbatim>\<open>
  app.use((error, req, res, next) => {
      res.status(500).json({ error: 'Internal server error',
          message: 'An unexpected error occurred' });
  });
  \<close>
\<close>

datatype sent_body = NoJson | BadJson | Json "(string \<times> json) list"

definition unexpected_error :: response where
  "unexpected_error =
     \<lparr>status = 500,
      body = error_body ''Internal server error'' ''An unexpected error occurred''\<rparr>"

text \<open>\<^verbatim>\<open>req.body\<close> after the parser has let the request through; \<open>None\<close> is
  \<^verbatim>\<open>undefined\<close>.\<close>

fun req_body :: "env \<Rightarrow> sent_body \<Rightarrow> (string \<times> json) list option" where
  "req_body env (Json fs) = Some fs"
| "req_body env NoJson = empty_body env"
| "req_body env BadJson = None"

text \<open>
  \<^verbatim>\<open>app.post('/api/projects', authenticateToken, validateProject, async (req, res) => ...)\<close>
  The JSON parser, then \<^verbatim>\<open>authenticateToken\<close>, then \<^verbatim>\<open>validateProject\<close>, whose first
  statement \<^verbatim>\<open>const { title, file, tags } = req.body\<close> throws when \<^verbatim>\<open>req.body\<close> is
  \<^verbatim>\<open>undefined\<close>, then the handler.
\<close>

definition POST_api_projects :: "env \<Rightarrow> disk \<Rightarrow> string option \<Rightarrow> sent_body \<Rightarrow> outcome" where
  "POST_api_projects env d authHeader sent =
     (if sent = BadJson then \<lparr>response = unexpected_error, disk_after = d, ops = []\<rparr>
      else (case authenticateToken env authHeader of
              Inl r \<Rightarrow> \<lparr>response = r, disk_after = d, ops = []\<rparr>
            | Inr u \<Rightarrow>
                (case req_body env sent of
                   None \<Rightarrow> \<lparr>response = unexpected_error, disk_after = d, ops = []\<rparr>
                 | Some reqBody \<Rightarrow> append_record env d reqBody)))"

text \<open>
  The handler of \<^verbatim>\<open>DELETE /api/projects/:title\<close>; \<open>param\<close> is \<^verbatim>\<open>req.params.title\<close>.
  \<^verbatim>\<open>
  const titleToDelete = decodeURIComponent(req.params.title);
  const projects = await readProjects();
  const projectIndex = projects.findIndex(p =>
      p.title.toLowerCase() === titleToDelete.toLowerCase());
  if (projectIndex === -1) { return res.status(404).json({...}); }
  const deletedProject = projects.splice(projectIndex, 1)[0];
  await writeProjects(projects);
  res.json({ success: true, message: 'Project deleted successfully',
      deletedProject: deletedProject, totalProjects: projects.length });
  \<close>
\<close>

definition deleteByTitle :: "env \<Rightarrow> disk \<Rightarrow> string \<Rightarrow> outcome" where
  "deleteByTitle env d param =
     (case decode_uri env param of
        None \<Rightarrow>
          \<lparr>response = internal_error ''Failed to delete project'', disk_after = d, ops = []\<rparr>
      | Some titleToDelete \<Rightarrow>
     (case readProjects d of
        Inl e \<Rightarrow>
          \<lparr>response = internal_error ''Failed to delete project'', disk_after = d,
           ops = [ReadFile]\<rparr>
      | Inr projects \<Rightarrow>
     (case js_findIndex (same_title (Some (JStr titleToDelete))) projects of
        Inl e \<Rightarrow>
          \<lparr>response = internal_error ''Failed to delete project'', disk_after = d,
           ops = [ReadFile]\<rparr>
      | Inr None \<Rightarrow>
          \<lparr>response = \<lparr>status = 404,
                        body = error_body ''Project not found''
                          ''No project found with the specified title''\<rparr>,
           disk_after = d, ops = [ReadFile]\<rparr>
      | Inr (Some projectIndex) \<Rightarrow>
     (let deletedProject = projects ! projectIndex;
          projects' = take projectIndex projects @ drop (Suc projectIndex) projects
      in case writeProjects env d projects' of
           (Inl e, d') \<Rightarrow>
             \<lparr>response = internal_error ''Failed to delete project'', disk_after = d',
              ops = [ReadFile, CopyFile, WriteFile]\<rparr>
         | (Inr u, d') \<Rightarrow>
             \<lparr>response = \<lparr>status = 200,
                           body = JObj [(''success'', JBool True),
                                        (''message'', JStr ''Project deleted successfully''),
                                        (''deletedProject'', deletedProject),
                                        (''totalProjects'', JNum (real (length projects')))]\<rparr>,
              disk_after = d', ops = [ReadFile, CopyFile, WriteFile]\<rparr>))))"

text \<open>
  \<^verbatim>\<open>app.delete('/api/projects/:title', authenticateToken, async (req, res) => ...)\<close>
  \<open>segment\<close> is the last segment of the path as it was sent. When the route is matched,
  Express decodes it with \<^verbatim>\<open>decodeURIComponent\<close> into \<^verbatim>\<open>req.params.title\<close>; a segment that
  does not decode is an error, which goes to the error middleware. This comes after the JSON
  parser and before \<^verbatim>\<open>authenticateToken\<close>. The handler then decodes
  \<^verbatim>\<open>req.params.title\<close> once more.
\<close>

definition DELETE_api_projects :: "env \<Rightarrow> disk \<Rightarrow> string option \<Rightarrow> string \<Rightarrow> sent_body \<Rightarrow> outcome" where
  "DELETE_api_projects env d authHeader segment sent =
     (if sent = BadJson then \<lparr>response = unexpected_error, disk_after = d, ops = []\<rparr>
      else (case decode_uri env segment of
              None \<Rightarrow> \<lparr>response = unexpected_error, disk_after = d, ops = []\<rparr>
            | Some param \<Rightarrow>
                (case authenticateToken env authHeader of
                   Inl r \<Rightarrow> \<lparr>response = r, disk_after = d, ops = []\<rparr>
                 | Inr u \<Rightarrow> deleteByTitle env d param)))"

subsection \<open>Reference values\<close>

text \<open>An environment and the catalog of the specification's scenarios, for evaluating the
  model on them. The secret is configured, the clock is fixed, the file system does not fail
  and the framework is Express 4. On the strings of the examples the two functions agree with
  the built-ins: a string that starts with \<^verbatim>\<open>https://x/\<close> parses as a URL and
  \<^verbatim>\<open>not a url\<close> does not; \<open>percent_decode\<close> replaces an escape \<^verbatim>\<open>%XY\<close> of a byte below 128
  by that character and fails on a \<^verbatim>\<open>%\<close> that two hexadecimal digits do not follow, as
  \<^verbatim>\<open>decodeURIComponent\<close> does. The escapes of the bytes from 128 on, which stand for longer
  UTF-8 sequences, are not decoded here and occur in no example.\<close>

definition hex_val :: "char \<Rightarrow> nat option" where
  "hex_val c =
     (let n = (of_char c :: nat)
      in if 48 \<le> n \<and> n \<le> 57 then Some (n - 48)
         else if 65 \<le> n \<and> n \<le> 70 then Some (n - 55)
         else if 97 \<le> n \<and> n \<le> 102 then Some (n - 87)
         else None)"

fun percent_decode :: "string \<Rightarrow> string option" where
  "percent_decode [] = Some []"
| "percent_decode (c # cs) =
     (if c \<noteq> CHR ''%'' then map_option ((#) c) (percent_decode cs)
      else (case cs of
              h # l # rest \<Rightarrow>
                (case (hex_val h, hex_val l) of
                   (Some a, Some b) \<Rightarrow>
                     if 16 * a + b < 128
                     then map_option ((#) (char_of (16 * a + b))) (percent_decode rest)
                     else None
                 | _ \<Rightarrow> None)
            | _ \<Rightarrow> None))"

definition test_env :: env where
  "test_env =
     \<lparr>SECRET_TOKEN_var = Some ''s3cret'',
      url_parses = prefix ''https://x/'',
      decode_uri = percent_decode,
      now_iso = ''2024-05-01T10:00:00.000Z'',
      now_ms = 1714557600000,
      copy_fails = False,
      write_result = None,
      empty_body = Some []\<rparr>"

definition wetland :: json where
  "wetland = JObj [(''title'', JStr ''Wetland Survey''),
                   (''tags'', JArr [JStr ''ecology'', JStr ''gis'']),
                   (''file'', JStr ''https://x/a.pdf'')]"

definition disk_of :: "json list \<Rightarrow> disk" where
  "disk_of projects = \<lparr>projects_file = Doc (JArr projects), backups = []\<rparr>"

text \<open>A record whose tag carries surrounding blanks, two records whose titles differ in case
  only, and the state of the page after loading a snapshot.\<close>

definition spaced_tag :: json where
  "spaced_tag = JObj [(''title'', JStr ''Coastal Atlas''),
                      (''tags'', JArr [JStr '' GIS '']),
                      (''file'', JStr ''https://x/c.pdf'')]"

definition report_upper :: json where
  "report_upper = JObj [(''title'', JStr ''Report''), (''tags'', JArr []),
                        (''file'', JStr ''https://x/r1.pdf'')]"

definition report_lower :: json where
  "report_lower = JObj [(''title'', JStr ''report''), (''tags'', JArr []),
                        (''file'', JStr ''https://x/r2.pdf'')]"

text \<open>Three records whose titles the handler of the delete route decodes again: one with a
  blank, one with the escape of a blank, and one with a \<^verbatim>\<open>%\<close> that begins no escape.\<close>

definition plain_title :: json where
  "plain_title = JObj [(''title'', JStr ''a b''), (''tags'', JArr []),
                       (''file'', JStr ''https://x/p1.pdf'')]"

definition escaped_title :: json where
  "escaped_title = JObj [(''title'', JStr ''a%20b''), (''tags'', JArr []),
                         (''file'', JStr ''https://x/p2.pdf'')]"

definition percent_title :: json where
  "percent_title = JObj [(''title'', JStr ''100%''), (''tags'', JArr []),
                         (''file'', JStr ''https://x/p3.pdf'')]"

definition view_of :: "json list \<Rightarrow> string set \<Rightarrow> view" where
  "view_of projects active =
     \<lparr>allProjects = projects, filteredProjects = projects, activeTagFilters = active\<rparr>"

section \<open>Properties of escaping\<close>

lemma set_replace_all:
  "set (replace_all x r s) = (set s - {x}) \<union> (if x \<in> set s then set r else {})"
  by (induction s) (auto simp: replace_all_def)

lemma escapeHtml_avoids:
  "c \<in> {CHR ''<'', CHR ''>'', CHR 0x22, CHR 0x27} \<Longrightarrow> c \<notin> set (escapeHtml s)"
  by (auto simp: escapeHtml_def set_replace_all split: if_splits)



text \<open>The markup of a card has the tags and the attribute quotes of its template, two more
  of each for every tag of the record, and no single quote, whatever the title, the tags and
  the file are.\<close>

lemma count_escapeHtml:
  "c \<in> {CHR ''<'', CHR ''>'', CHR 0x22, CHR 0x27} \<Longrightarrow> count_list (escapeHtml s) c = 0"
  using escapeHtml_avoids [of c s] by (simp add: count_list_0_iff)

lemma count_tag_spans:
  "tag_spans tags = Inr spans \<Longrightarrow>
   count_list spans (CHR ''<'') = 2 * length tags \<and>
   count_list spans (CHR ''>'') = 2 * length tags \<and>
   count_list spans (CHR 0x22) = 2 * length tags \<and>
   count_list spans (CHR 0x27) = 0"
proof (induction tags arbitrary: spans)
  case Nil
  then show ?case by simp
next
  case (Cons tag tags)
  then obtain s rest where tag: "tag = JStr s" and rest: "tag_spans tags = Inr rest"
    and spans: "spans = ''<span class=\"project-tag\">'' @ escapeHtml s @ ''</span>'' @ rest"
    by (cases tag) (auto split: sum.splits)
  from Cons.IH [OF rest] show ?case
    by (simp add: spans count_escapeHtml)
qed

lemma call_escapeHtml_Inr: "call_escapeHtml v = Inr r \<Longrightarrow> \<exists>s. r = escapeHtml s"
  by (cases v) auto

lemma card_tags_length:
  "get_prop project ''tags'' = Inr tg \<Longrightarrow>
   length (case tg of Some (JArr ts) \<Rightarrow> ts | _ \<Rightarrow> []) = length (record_tags project)"
  by (cases project) (auto split: option.splits json.splits)

lemma card_markup_delimiters:
  assumes "createProjectCard project = Inr markup"
  shows "count_list markup (CHR ''<'') = 6 + 2 * length (record_tags project) \<and>
         count_list markup (CHR ''>'') = 6 + 2 * length (record_tags project) \<and>
         count_list markup (CHR 0x22) = 10 + 2 * length (record_tags project) \<and>
         count_list markup (CHR 0x27) = 0"
proof -
  from assms obtain t tg f title' spans file' where
    tg: "get_prop project ''tags'' = Inr tg" and
    title': "call_escapeHtml (or_default t ''Untitled Project'') = Inr title'" and
    spans: "tag_spans (case tg of Some (JArr ts) \<Rightarrow> ts | _ \<Rightarrow> []) = Inr spans" and
    file': "call_escapeHtml (or_default f ''#'') = Inr file'" and
    markup: "markup =
      ''\<newline>        <h3 class=\"project-title\">'' @ title' @ ''</h3>\<newline>'' @
      ''        <div class=\"project-tags\">\<newline>            '' @ spans @
      ''\<newline>        </div>\<newline>'' @
      ''        <a href=\"'' @ file' @
      ''\" target=\"_blank\" class=\"view-pdf-btn\">View PDF</a>\<newline>    ''"
    unfolding createProjectCard_def Let_def by (auto split: sum.splits)
  from call_escapeHtml_Inr [OF title'] obtain a where a: "title' = escapeHtml a" by blast
  from call_escapeHtml_Inr [OF file'] obtain b where b: "file' = escapeHtml b" by blast
  note n = count_tag_spans [OF spans, unfolded card_tags_length [OF tg]]
  show ?thesis
    using n by (simp add: markup a b count_escapeHtml)
qed

section \<open>Evaluated strings\<close>

text \<open>The case-folded and the trimmed forms of the strings of the examples.\<close>

lemma lower_examples:
  "toLowerCase ''Wetland Survey'' = ''wetland survey''"
  "toLowerCase ''wetland survey'' = ''wetland survey''"
  "toLowerCase ''WETLAND survey'' = ''wetland survey''"
  "toLowerCase ''Forest Plan'' = ''forest plan''"
  "toLowerCase ''Wet'' = ''wet''"
  "toLowerCase ''wetland'' = ''wetland''"
  "toLowerCase ''forest'' = ''forest''"
  "toLowerCase ''ecology'' = ''ecology''"
  "toLowerCase ''gis'' = ''gis''"
  "toLowerCase '' GIS '' = '' gis ''"
  "toLowerCase ''Coastal Atlas'' = ''coastal atlas''"
  "toLowerCase ''Report'' = ''report''"
  "toLowerCase ''report'' = ''report''"
  "toLowerCase ''a b'' = ''a b''"
  "toLowerCase ''a%20b'' = ''a%20b''"
  "toLowerCase [] = []"
  by code_simp+

lemma trim_examples:
  "trim ''wet'' = ''wet''"
  "trim ''wetland'' = ''wetland''"
  "trim ''forest'' = ''forest''"
  "trim '' gis '' = ''gis''"
  "trim ''gis'' = ''gis''"
  "trim ''ecology'' = ''ecology''"
  "trim '' WETLAND survey '' = ''WETLAND survey''"
  "trim ''wetland survey'' = ''wetland survey''"
  "trim ''Forest Plan'' = ''Forest Plan''"
  "trim '' Forest Plan '' = ''Forest Plan''"
  "trim ''https://x/b.pdf'' = ''https://x/b.pdf''"
  "trim ''https://x/f.pdf'' = ''https://x/f.pdf''"
  "trim ''not a url'' = ''not a url''"
  "trim '' habitat '' = ''habitat''"
  "trim ''   '' = []"
  "trim [] = []"
  by code_simp+

lemma test_env_simps:
  "url_parses test_env = prefix ''https://x/''"
  "now_iso test_env = ''2024-05-01T10:00:00.000Z''"
  "write_result test_env = None"
  "copy_fails test_env = False"
  "now_ms test_env = 1714557600000"
  "SECRET_TOKEN test_env = ''s3cret''"
  "empty_body test_env = Some []"
  by (simp_all add: test_env_def SECRET_TOKEN_def)

lemma percent_examples:
  "percent_decode ''report'' = Some ''report''"
  "percent_decode ''wetland survey'' = Some ''wetland survey''"
  "percent_decode ''wetland%20survey'' = Some ''wetland survey''"
  "percent_decode ''a%2520b'' = Some ''a%20b''"
  "percent_decode ''a%20b'' = Some ''a b''"
  "percent_decode ''100%25'' = Some ''100%''"
  "percent_decode ''100%'' = None"
  "percent_decode ''%zz'' = None"
  by code_simp+

lemma decode_examples:
  "decode_uri test_env ''report'' = Some ''report''"
  "decode_uri test_env ''wetland survey'' = Some ''wetland survey''"
  "decode_uri test_env ''wetland%20survey'' = Some ''wetland survey''"
  "decode_uri test_env ''a%2520b'' = Some ''a%20b''"
  "decode_uri test_env ''a%20b'' = Some ''a b''"
  "decode_uri test_env ''100%25'' = Some ''100%''"
  "decode_uri test_env ''100%'' = None"
  "decode_uri test_env ''%zz'' = None"
  unfolding test_env_def env.simps by (rule percent_examples)+

section \<open>Callbacks that do not throw\<close>

lemma js_includes_sublist: "js_includes s t = sublist t s"
  by (induction s) (auto simp: sublist_Cons_right)

lemma js_some_total:
  "(\<And>x. x \<in> set xs \<Longrightarrow> f x = Inr (g x)) \<Longrightarrow> js_some f xs = Inr (\<exists>x \<in> set xs. g x)"
  by (induction xs) auto

lemma js_filter_total:
  "(\<And>x. x \<in> set xs \<Longrightarrow> f x = Inr (g x)) \<Longrightarrow> js_filter f xs = Inr (filter g xs)"
  by (induction xs) auto

lemma js_find_total:
  "(\<And>x. x \<in> set xs \<Longrightarrow> f x = Inr (g x)) \<Longrightarrow> js_find f xs = Inr (List.find g xs)"
  by (induction xs) auto

lemma js_find_no_match:
  "(\<And>x. x \<in> set xs \<Longrightarrow> f x = Inr False) \<Longrightarrow> js_find f xs = Inr None"
  by (induction xs) auto

lemma find_Some_ex: "\<exists>p \<in> set ps. g p \<Longrightarrow> \<exists>q. List.find g ps = Some q"
  by (induction ps) auto

lemma js_findIndex_Some:
  "js_findIndex f xs = Inr (Some i) \<Longrightarrow>
   i < length xs \<and> f (xs ! i) = Inr True \<and> (\<forall>q \<in> set (take i xs). f q = Inr False)"
proof (induction xs arbitrary: i)
  case Nil
  then show ?case by simp
next
  case (Cons x xs)
  show ?case
  proof (cases "f x")
    case (Inl e)
    with Cons.prems show ?thesis by simp
  next
    case (Inr b)
    show ?thesis
    proof (cases b)
      case True
      with Inr Cons.prems show ?thesis by simp
    next
      case False
      with Inr Cons.prems obtain j where j: "js_findIndex f xs = Inr (Some j)" "i = Suc j"
        by (auto split: sum.splits option.splits)
      from Cons.IH [OF j(1)] Inr False j(2) show ?thesis by simp
    qed
  qed
qed

lemma js_findIndex_None:
  "js_findIndex f xs = Inr None \<Longrightarrow> \<forall>q \<in> set xs. f q = Inr False"
  by (induction xs) (auto split: sum.splits option.splits if_splits)

section \<open>Properties of the catalog view\<close>

lemma lowered_tag:
  "is_string t \<Longrightarrow>
   (case call_toLowerCase (Some t) of Inl e \<Rightarrow> Inl e | Inr l \<Rightarrow> Inr (P l)) =
   Inr (P (toLowerCase (the_string t)))"
  by (cases t) auto

lemma tags_some_wf:
  assumes "wf_record (JObj fs)"
  shows "tags_some (\<lambda>tag. case call_toLowerCase (Some tag) of Inl e \<Rightarrow> Inl e | Inr l \<Rightarrow> Inr (P l))
           (map_of fs ''tags'') =
         Inr (\<exists>t \<in> set (record_tags (JObj fs)). P (toLowerCase t))"
proof (cases "map_of fs ''tags''")
  case None
  then show ?thesis by (simp add: tags_some_def)
next
  case (Some tg)
  show ?thesis
  proof (cases tg)
    case (JArr ts)
    with Some assms have strs: "list_all is_string ts"
      by (auto split: option.splits json.splits)
    have "js_some (\<lambda>tag. case call_toLowerCase (Some tag) of Inl e \<Rightarrow> Inl e | Inr l \<Rightarrow> Inr (P l)) ts
          = Inr (\<exists>t \<in> set ts. P (toLowerCase (the_string t)))"
      by (rule js_some_total) (use strs in \<open>simp add: list_all_iff lowered_tag\<close>)
    with Some JArr show ?thesis by (simp add: tags_some_def)
  qed (use Some assms in \<open>auto simp: tags_some_def split: option.splits json.splits\<close>)
qed

lemma keep_project_wf:
  assumes "wf_record p"
  shows "keep_project searchTerm active p = Inr (recompute_includes searchTerm active p)"
proof -
  from assms obtain fs where p: "p = JObj fs" by (cases p) auto
  from assms p obtain s where title: "map_of fs ''title'' = Some (JStr s)"
    by (auto split: option.splits json.splits)
  show ?thesis
    using tags_some_wf [OF assms [unfolded p]] title
    by (simp add: keep_project_def recompute_includes_def p js_includes_sublist)
qed

text \<open>
  Claim C2, as amended. For every snapshot of well-formed records, every text of the search
  box and every set of active tag filters, \<open>filterProjects\<close> returns normally and the derived
  list is the snapshot filtered, in order, by the rule: (1) the search term (the text
  case-folded and trimmed) is empty, or the case-folded title contains it, or some case-folded
  tag of the record contains it; and (2) the set of active filters is empty, or some tag of the
  record, case-folded and trimmed, is a member of it. The claim as stated compares the
  case-folded tag with the active filters without trimming it.
\<close>

theorem filterProjects_recompute:
  assumes "list_all wf_record (allProjects v)"
  shows "filterProjects v searchInput =
         Inr (v\<lparr>filteredProjects :=
                filter (recompute_includes (trim (toLowerCase searchInput)) (activeTagFilters v))
                  (allProjects v)\<rparr>)"
proof -
  have "js_filter (keep_project (trim (toLowerCase searchInput)) (activeTagFilters v)) (allProjects v)
        = Inr (filter (recompute_includes (trim (toLowerCase searchInput)) (activeTagFilters v))
                 (allProjects v))"
    by (rule js_filter_total) (use assms in \<open>simp add: list_all_iff keep_project_wf\<close>)
  then show ?thesis by (simp add: filterProjects_def)
qed

text \<open>With the filter \<^verbatim>\<open>gis\<close> active and the search term \<^verbatim>\<open>wet\<close>, the wetland record stays
  and the coastal one goes.\<close>

theorem filterProjects_recompute_witness:
  "list_all wf_record (allProjects (view_of [wetland, spaced_tag] {''gis''})) \<and>
   filterProjects (view_of [wetland, spaced_tag] {''gis''}) ''Wet'' =
     Inr ((view_of [wetland, spaced_tag] {''gis''})\<lparr>filteredProjects := [wetland]\<rparr>)"
proof -
  have wf: "list_all wf_record (allProjects (view_of [wetland, spaced_tag] {''gis''}))"
    by (simp add: view_of_def wetland_def spaced_tag_def)
  have keep: "recompute_includes ''wet'' {''gis''} wetland"
    by (simp add: recompute_includes_def wetland_def lower_examples trim_examples
          js_includes_sublist [symmetric])
  have drop: "\<not> recompute_includes ''wet'' {''gis''} spaced_tag"
    by (simp add: recompute_includes_def spaced_tag_def lower_examples trim_examples
          js_includes_sublist [symmetric])
  show ?thesis
    using wf filterProjects_recompute [OF wf, of "''Wet''"] keep drop
    by (simp add: view_of_def lower_examples trim_examples)
qed

text \<open>The claim as stated fails on a tag with surrounding blanks: with the filter \<^verbatim>\<open>gis\<close>
  active and an empty search box the record is kept, although its only case-folded tag,
  \<^verbatim>\<open>" gis "\<close>, is not a member of the active set.\<close>

theorem filterProjects_untrimmed_tag_counterexample:
  "filterProjects (view_of [spaced_tag] {''gis''}) [] =
     Inr ((view_of [spaced_tag] {''gis''})\<lparr>filteredProjects := [spaced_tag]\<rparr>) \<and>
   map toLowerCase (record_tags spaced_tag) = ['' gis ''] \<and> '' gis '' \<notin> {''gis''}"
  by (simp add: filterProjects_def keep_project_def tags_some_def spaced_tag_def view_of_def
        lower_examples trim_examples)

lemma set_set_add: "set (set_add x xs) = insert x (set xs)"
  by (auto simp: set_add_def)

lemma distinct_set_add: "distinct xs \<Longrightarrow> distinct (set_add x xs)"
  by (simp add: set_add_def)

lemma add_tags_strings:
  "list_all is_string ts \<Longrightarrow>
   \<exists>r. add_tags ts acc = Inr r \<and>
       set r = set acc \<union> (\<lambda>t. trim (toLowerCase (the_string t))) ` set ts \<and>
       (distinct acc \<longrightarrow> distinct r)"
proof (induction ts arbitrary: acc)
  case Nil
  then show ?case by simp
next
  case (Cons t ts)
  then obtain s where t: "t = JStr s" by (cases t) auto
  from Cons.prems have "list_all is_string ts" by simp
  from Cons.IH [OF this, of "set_add (trim (toLowerCase s)) acc"]
  show ?case by (auto simp: t set_set_add distinct_set_add)
qed

lemma collect_tags_wf:
  "list_all wf_record ps \<Longrightarrow>
   \<exists>r. collect_tags ps acc = Inr r \<and>
       set r = set acc \<union> tag_vocabulary ps \<and>
       (distinct acc \<longrightarrow> distinct r)"
proof (induction ps arbitrary: acc)
  case Nil
  then show ?case by (simp add: tag_vocabulary_def)
next
  case (Cons p ps)
  from Cons.prems have wf: "wf_record p" and rest: "list_all wf_record ps" by simp_all
  from wf obtain fs where p: "p = JObj fs" by (cases p) auto
  have voc: "tag_vocabulary (p # ps) =
             (\<lambda>t. trim (toLowerCase t)) ` set (record_tags p) \<union> tag_vocabulary ps"
    by (simp add: tag_vocabulary_def)
  show ?case
  proof (cases "\<exists>ts. map_of fs ''tags'' = Some (JArr ts)")
    case True
    then obtain ts where ts: "map_of fs ''tags'' = Some (JArr ts)" by blast
    with wf p have "list_all is_string ts" by (auto split: option.splits json.splits)
    from add_tags_strings [OF this, of acc] obtain r where
      r: "add_tags ts acc = Inr r"
         "set r = set acc \<union> (\<lambda>t. trim (toLowerCase (the_string t))) ` set ts"
         "distinct acc \<longrightarrow> distinct r"
      by blast
    from Cons.IH [OF rest, of r] obtain r' where
      r': "collect_tags ps r = Inr r'" "set r' = set r \<union> tag_vocabulary ps"
          "distinct r \<longrightarrow> distinct r'"
      by blast
    have tags: "set (record_tags p) = the_string ` set ts" by (simp add: p ts)
    have "collect_tags (p # ps) acc = Inr r'" by (simp add: p ts r r')
    moreover have "set r' = set acc \<union> tag_vocabulary (p # ps)"
      unfolding voc r'(2) r(2) tags by (auto simp: image_image)
    ultimately show ?thesis using r(3) r'(3) by blast
  next
    case False
    then have none: "record_tags p = []"
      by (auto simp: p split: option.splits json.splits)
    from False have "collect_tags (p # ps) acc = collect_tags ps acc"
      by (auto simp: p split: option.splits json.splits)
    with Cons.IH [OF rest, of acc] show ?thesis by (simp add: voc none)
  qed
qed

text \<open>
  Claim C8. For every snapshot of well-formed records, \<open>renderTagFilters\<close> returns normally,
  and the texts of the filter controls, in the order they are created, are sorted
  lexicographically, hold no text twice, and are exactly the tags of all the records, each
  case-folded and trimmed.
\<close>

theorem renderTagFilters_vocabulary:
  assumes "list_all wf_record (allProjects v)"
  shows "\<exists>sortedTags. renderTagFilters v = Inr sortedTags \<and> sorted sortedTags \<and>
           distinct sortedTags \<and> set sortedTags = tag_vocabulary (allProjects v)"
proof -
  from collect_tags_wf [OF assms, of "[]"] obtain r where
    "collect_tags (allProjects v) [] = Inr r" "set r = tag_vocabulary (allProjects v)" "distinct r"
    by auto
  then show ?thesis by (simp add: renderTagFilters_def)
qed

theorem renderTagFilters_vocabulary_witness:
  "list_all wf_record (allProjects (view_of [spaced_tag, wetland] {})) \<and>
   renderTagFilters (view_of [spaced_tag, wetland] {}) = Inr [''ecology'', ''gis'']"
proof -
  have wf: "list_all wf_record (allProjects (view_of [spaced_tag, wetland] {}))"
    by (simp add: view_of_def wetland_def spaced_tag_def)
  have run: "renderTagFilters (view_of [spaced_tag, wetland] {}) = Inr [''ecology'', ''gis'']"
    by (simp add: renderTagFilters_def view_of_def wetland_def spaced_tag_def set_add_def
          lower_examples trim_examples)
  show ?thesis
    using wf renderTagFilters_vocabulary [OF wf] run by simp
qed

section \<open>Properties of the admin server\<close>

subsection \<open>Titles, validation, files\<close>

lemma same_title_wf:
  "wf_record p \<Longrightarrow>
   same_title (Some (JStr t)) p = Inr (toLowerCase (record_title p) = toLowerCase t)"
  by (cases p) (auto simp: same_title_def split: option.splits json.splits)

text \<open>The check of the source says what the specification says: the field is missing, is
  not a string, or is blank.\<close>

lemma missing_or_blank_iff:
  "missing_or_blank x \<longleftrightarrow> x = None \<or> \<not> typeof_string x \<or> trim (string_of x) = []"
proof (cases x)
  case None
  then show ?thesis by (simp add: missing_or_blank_def)
next
  case (Some v)
  then show ?thesis
    by (cases v) (auto simp: missing_or_blank_def trim_def)
qed

lemma validateProject_Inr:
  assumes "validateProject env reqBody = Inr newProject"
  shows "newProject =
           [(''title'', JStr (trim (string_of (map_of reqBody ''title'')))),
            (''file'', JStr (trim (string_of (map_of reqBody ''file'')))),
            (''tags'', JArr (normalize_tags (map_of reqBody ''tags'')))]"
    and "\<not> missing_or_blank (map_of reqBody ''title'')"
    and "\<not> missing_or_blank (map_of reqBody ''file'')"
    and "url_parses env (string_of (map_of reqBody ''file''))"
  using assms by (auto simp: validateProject_def Let_def split: if_splits)

lemma stored_is_record_as_stored:
  assumes "validateProject env reqBody = Inr newProject"
  shows "JObj (AList.update ''createdAt'' (JStr (now_iso env)) newProject) =
         record_as_stored env reqBody"
  by (simp add: validateProject_Inr(1) [OF assms] record_as_stored_def)

lemma newProject_title:
  assumes "validateProject env reqBody = Inr newProject"
  shows "map_of newProject ''title'' = Some (JStr (trim (string_of (map_of reqBody ''title''))))"
  by (simp add: validateProject_Inr(1) [OF assms])

lemma record_as_stored_title:
  "record_title (record_as_stored env reqBody) = trim (string_of (map_of reqBody ''title''))"
  by (simp add: record_as_stored_def)

lemma writeProjects_ok:
  "write_result env = None \<Longrightarrow>
   writeProjects env d ps = (Inr (), (backup env d)\<lparr>projects_file := Doc (JArr ps)\<rparr>)"
  by (simp add: writeProjects_def)

lemma readProjects_Doc:
  "projects_file d = Doc (JArr ps) \<Longrightarrow> readProjects d = Inr ps"
  by (simp add: readProjects_def)

subsection \<open>Reading\<close>

text \<open>
  Claim C6, as amended. \<open>readProjects\<close> returns the empty catalog, not an error, when the
  file is absent. It fails when the parsed content is not an array, when the text is not JSON,
  and when reading fails for another reason than absence, every time with the same failure.
  The content of the file is not examined beyond that: an array is returned as the catalog
  whatever its elements are.
\<close>

theorem readProjects_cases:
  "(projects_file d = Absent \<longrightarrow> readProjects d = Inr []) \<and>
   (projects_file d = Doc v \<and> \<not> is_array (Some v) \<longrightarrow>
      readProjects d = Inl (Thrown ''Failed to read projects file'')) \<and>
   (projects_file d = Malformed \<longrightarrow>
      readProjects d = Inl (Thrown ''Failed to read projects file'')) \<and>
   (projects_file d = Unreadable \<longrightarrow>
      readProjects d = Inl (Thrown ''Failed to read projects file'')) \<and>
   (projects_file d = Doc (JArr projects) \<longrightarrow> readProjects d = Inr projects)"
  by (cases v) (auto simp: readProjects_def)

theorem readProjects_cases_witness:
  "readProjects \<lparr>projects_file = Absent, backups = []\<rparr> = Inr [] \<and>
   readProjects \<lparr>projects_file = Doc (JObj [(''projects'', JArr [wetland])]), backups = []\<rparr> =
     Inl (Thrown ''Failed to read projects file'') \<and>
   readProjects \<lparr>projects_file = Malformed, backups = []\<rparr> =
     Inl (Thrown ''Failed to read projects file'') \<and>
   readProjects \<lparr>projects_file = Unreadable, backups = []\<rparr> =
     Inl (Thrown ''Failed to read projects file'') \<and>
   readProjects \<lparr>projects_file = Doc (JArr [wetland]), backups = []\<rparr> = Inr [wetland]"
  using readProjects_cases [of "\<lparr>projects_file = Absent, backups = []\<rparr>" JNull "[]"]
    readProjects_cases [of "\<lparr>projects_file = Doc (JObj [(''projects'', JArr [wetland])]), backups = []\<rparr>"
      "JObj [(''projects'', JArr [wetland])]" "[]"]
    readProjects_cases [of "\<lparr>projects_file = Malformed, backups = []\<rparr>" JNull "[]"]
    readProjects_cases [of "\<lparr>projects_file = Unreadable, backups = []\<rparr>" JNull "[]"]
    readProjects_cases [of "\<lparr>projects_file = Doc (JArr [wetland]), backups = []\<rparr>" JNull "[wetland]"]
  by simp

text \<open>The claim as stated fails on a file that holds a sequence of values that are not
  records: it is read without error, and \<^verbatim>\<open>GET /api/projects\<close> answers 200 with it.\<close>

theorem readProjects_not_records_counterexample:
  "readProjects \<lparr>projects_file = Doc (JArr [JStr ''not a record'', JNum 1]), backups = []\<rparr> =
     Inr [JStr ''not a record'', JNum 1] \<and>
   \<not> wf_record (JStr ''not a record'') \<and> \<not> wf_record (JNum 1) \<and>
   status (response (GET_api_projects
     \<lparr>projects_file = Doc (JArr [JStr ''not a record'', JNum 1]), backups = []\<rparr>)) = 200"
  by (simp add: readProjects_def GET_api_projects_def)

subsection \<open>Authentication\<close>

lemma split_space_no_space: "CHR '' '' \<notin> set w \<Longrightarrow> split_space w = [w]"
  by (induction w) auto

lemma split_space_append:
  "CHR '' '' \<notin> set w \<Longrightarrow> split_space (w @ CHR '' '' # rest) = w # split_space rest"
  by (induction w) auto

text \<open>The usual header carries its token; the configured secret is never empty.\<close>

lemma bearer_token_Bearer:
  "CHR '' '' \<notin> set tok \<Longrightarrow> bearer_token (Some (''Bearer '' @ tok)) = Some tok"
  using split_space_append [of "''Bearer''" tok] split_space_no_space [of tok]
  by (simp add: bearer_token_def nth_opt_def)

lemma SECRET_TOKEN_nonempty: "SECRET_TOKEN env \<noteq> []"
  by (simp add: SECRET_TOKEN_def split: option.splits)

text \<open>
  Claim C4, as amended. For every request to \<^verbatim>\<open>POST /api/projects\<close> that the JSON parser
  lets through, and every request to \<^verbatim>\<open>DELETE /api/projects/:title\<close> that the parser lets
  through and whose title segment decodes: when the \<^verbatim>\<open>Authorization\<close> header carries no
  token (there is no header, or no second piece after a space, or that piece is empty) the
  status is 401; when it carries a token that is not the configured secret the status is 403;
  in both cases the handler is not reached: no file operation is attempted and the files are
  as before. A request whose JSON body does not parse, and a delete whose title segment does
  not decode, are answered 500 by the error middleware before the header is looked at, and
  the handler is not reached then either. The claim as stated promises 401 and 403 for every
  request.
\<close>

theorem unauthenticated_rejected:
  "(sent \<noteq> BadJson \<and> (bearer_token authHeader = None \<or> bearer_token authHeader = Some []) \<longrightarrow>
      status (response (POST_api_projects env d authHeader sent)) = 401 \<and>
      disk_after (POST_api_projects env d authHeader sent) = d \<and>
      ops (POST_api_projects env d authHeader sent) = []) \<and>
   (sent \<noteq> BadJson \<and> decode_uri env segment \<noteq> None \<and>
    (bearer_token authHeader = None \<or> bearer_token authHeader = Some []) \<longrightarrow>
      status (response (DELETE_api_projects env d authHeader segment sent)) = 401 \<and>
      disk_after (DELETE_api_projects env d authHeader segment sent) = d \<and>
      ops (DELETE_api_projects env d authHeader segment sent) = []) \<and>
   (sent \<noteq> BadJson \<and>
    bearer_token authHeader = Some tok \<and> tok \<noteq> [] \<and> tok \<noteq> SECRET_TOKEN env \<longrightarrow>
      status (response (POST_api_projects env d authHeader sent)) = 403 \<and>
      disk_after (POST_api_projects env d authHeader sent) = d \<and>
      ops (POST_api_projects env d authHeader sent) = []) \<and>
   (sent \<noteq> BadJson \<and> decode_uri env segment \<noteq> None \<and>
    bearer_token authHeader = Some tok \<and> tok \<noteq> [] \<and> tok \<noteq> SECRET_TOKEN env \<longrightarrow>
      status (response (DELETE_api_projects env d authHeader segment sent)) = 403 \<and>
      disk_after (DELETE_api_projects env d authHeader segment sent) = d \<and>
      ops (DELETE_api_projects env d authHeader segment sent) = []) \<and>
   (sent = BadJson \<longrightarrow>
      status (response (POST_api_projects env d authHeader sent)) = 500 \<and>
      disk_after (POST_api_projects env d authHeader sent) = d \<and>
      ops (POST_api_projects env d authHeader sent) = []) \<and>
   (sent = BadJson \<or> decode_uri env segment = None \<longrightarrow>
      status (response (DELETE_api_projects env d authHeader segment sent)) = 500 \<and>
      disk_after (DELETE_api_projects env d authHeader segment sent) = d \<and>
      ops (DELETE_api_projects env d authHeader segment sent) = [])"
  by (auto simp: POST_api_projects_def DELETE_api_projects_def authenticateToken_def Let_def
        unexpected_error_def)

theorem unauthenticated_rejected_witness:
  "bearer_token None = None \<and>
   status (response (POST_api_projects test_env (disk_of [wetland]) None
      (Json [(''title'', JStr ''Forest Plan''), (''file'', JStr ''https://x/f.pdf'')]))) = 401 \<and>
   bearer_token (Some ''Bearer wrong'') = Some ''wrong'' \<and>
   decode_uri test_env ''wetland%20survey'' = Some ''wetland survey'' \<and>
   status (response (DELETE_api_projects test_env (disk_of [wetland]) (Some ''Bearer wrong'')
      ''wetland%20survey'' NoJson)) = 403 \<and>
   disk_after (DELETE_api_projects test_env (disk_of [wetland]) (Some ''Bearer wrong'')
      ''wetland%20survey'' NoJson) = disk_of [wetland]"
proof -
  have none: "bearer_token None = None" by (simp add: bearer_token_def)
  have wrong: "bearer_token (Some ''Bearer wrong'') = Some ''wrong''"
    by (simp add: bearer_token_def nth_opt_def)
  have dec: "decode_uri test_env ''wetland%20survey'' = Some ''wetland survey''"
    by (simp add: test_env_simps decode_examples)
  show ?thesis
    using none wrong dec
      unauthenticated_rejected [of
        "Json [(''title'', JStr ''Forest Plan''), (''file'', JStr ''https://x/f.pdf'')]"
        None test_env "disk_of [wetland]" "''wetland%20survey''" "''x''"]
      unauthenticated_rejected [of NoJson "Some ''Bearer wrong''" test_env "disk_of [wetland]"
        "''wetland%20survey''" "''wrong''"]
    by (simp add: test_env_simps)
qed

text \<open>Two requests without a token that are answered 500: a \<^verbatim>\<open>POST\<close> whose JSON body does
  not parse, and a \<^verbatim>\<open>DELETE\<close> of \<^verbatim>\<open>/api/projects/%zz\<close>.\<close>

theorem unauthenticated_malformed_request_counterexample:
  "bearer_token None = None \<and>
   status (response (POST_api_projects test_env (disk_of [wetland]) None BadJson)) = 500 \<and>
   decode_uri test_env ''%zz'' = None \<and>
   status (response (DELETE_api_projects test_env (disk_of [wetland]) None ''%zz'' NoJson)) = 500"
  by (simp add: bearer_token_def POST_api_projects_def DELETE_api_projects_def
        unexpected_error_def test_env_simps decode_examples)

subsection \<open>Appending\<close>

text \<open>
  Claim C5. For every candidate whose \<^verbatim>\<open>title\<close> or \<^verbatim>\<open>file\<close> is missing, is not a string or
  is blank, or whose \<^verbatim>\<open>file\<close> does not parse as a URL, the append operation answers 400, has
  attempted no file operation, and leaves the files as they were.
\<close>

theorem invalid_candidate_rejected:
  assumes "map_of reqBody ''title'' = None \<or> \<not> typeof_string (map_of reqBody ''title'') \<or>
           trim (string_of (map_of reqBody ''title'')) = [] \<or>
           map_of reqBody ''file'' = None \<or> \<not> typeof_string (map_of reqBody ''file'') \<or>
           trim (string_of (map_of reqBody ''file'')) = [] \<or>
           \<not> url_parses env (string_of (map_of reqBody ''file''))"
  shows "status (response (append_record env d reqBody)) = 400 \<and>
         disk_after (append_record env d reqBody) = d \<and>
         ops (append_record env d reqBody) = []"
proof -
  from assms have "missing_or_blank (map_of reqBody ''title'') \<or>
                   missing_or_blank (map_of reqBody ''file'') \<or>
                   \<not> url_parses env (string_of (map_of reqBody ''file''))"
    by (auto simp: missing_or_blank_iff)
  then have "\<exists>r. validateProject env reqBody = Inl r \<and> status r = 400"
    by (cases "missing_or_blank (map_of reqBody ''title'')";
        cases "missing_or_blank (map_of reqBody ''file'')")
       (simp_all add: validateProject_def Let_def)
  then show ?thesis by (auto simp: append_record_def)
qed

theorem invalid_candidate_rejected_witness:
  "\<not> url_parses test_env ''not a url'' \<and>
   status (response (append_record test_env (disk_of [wetland])
      [(''title'', JStr ''Forest Plan''), (''file'', JStr ''not a url'')])) = 400 \<and>
   disk_after (append_record test_env (disk_of [wetland])
      [(''title'', JStr ''Forest Plan''), (''file'', JStr ''not a url'')]) = disk_of [wetland] \<and>
   ops (append_record test_env (disk_of [wetland])
      [(''title'', JStr ''Forest Plan''), (''file'', JStr ''not a url'')]) = []"
proof -
  have bad: "\<not> url_parses test_env ''not a url''"
    by (simp add: test_env_simps)
  show ?thesis
    using bad invalid_candidate_rejected [of "[(''title'', JStr ''Forest Plan''), (''file'', JStr ''not a url'')]"
        test_env "disk_of [wetland]"]
    by simp
qed

text \<open>
  Claim C1, as amended. For every catalog of well-formed records and every candidate that
  passes validation and whose trimmed title equals, case-insensitively, the title of some
  existing record, the append operation answers 409, the only file operation it has attempted
  is the read, and the files are as they were. The claim as stated is about every candidate
  with such a title; validation comes first and answers 400 to an invalid one.
\<close>

theorem duplicate_title_rejected:
  assumes valid: "validateProject env reqBody = Inr newProject"
    and rd: "readProjects d = Inr projects"
    and wf: "list_all wf_record projects"
    and dup: "\<exists>p \<in> set projects.
               toLowerCase (record_title p) =
               toLowerCase (trim (string_of (map_of reqBody ''title'')))"
  shows "append_record env d reqBody =
         \<lparr>response = \<lparr>status = 409,
                       body = error_body ''Duplicate project''
                         ''A project with this title already exists''\<rparr>,
          disk_after = d, ops = [ReadFile]\<rparr>"
proof -
  let ?t = "trim (string_of (map_of reqBody ''title''))"
  have "js_find (same_title (Some (JStr ?t))) projects =
        Inr (List.find (\<lambda>p. toLowerCase (record_title p) = toLowerCase ?t) projects)"
    by (rule js_find_total) (use wf in \<open>simp add: list_all_iff same_title_wf\<close>)
  moreover from dup obtain q where
    "List.find (\<lambda>p. toLowerCase (record_title p) = toLowerCase ?t) projects = Some q"
    using find_Some_ex [of projects "\<lambda>p. toLowerCase (record_title p) = toLowerCase ?t"]
    by blast
  ultimately have "js_find (same_title (map_of newProject ''title'')) projects = Inr (Some q)"
    by (simp add: newProject_title [OF valid])
  then show ?thesis
    by (simp add: append_record_def valid post_handler_def rd)
qed

theorem duplicate_title_rejected_witness:
  "validateProject test_env
     [(''title'', JStr '' WETLAND survey ''), (''file'', JStr ''https://x/b.pdf'')] =
   Inr [(''title'', JStr ''WETLAND survey''), (''file'', JStr ''https://x/b.pdf''),
        (''tags'', JArr [])] \<and>
   append_record test_env (disk_of [wetland])
     [(''title'', JStr '' WETLAND survey ''), (''file'', JStr ''https://x/b.pdf'')] =
   \<lparr>response = \<lparr>status = 409,
                 body = error_body ''Duplicate project''
                   ''A project with this title already exists''\<rparr>,
    disk_after = disk_of [wetland], ops = [ReadFile]\<rparr>"
proof -
  let ?body = "[(''title'', JStr '' WETLAND survey ''), (''file'', JStr ''https://x/b.pdf'')]"
  have valid: "validateProject test_env ?body =
      Inr [(''title'', JStr ''WETLAND survey''), (''file'', JStr ''https://x/b.pdf''),
           (''tags'', JArr [])]"
    by (simp add: validateProject_def missing_or_blank_def test_env_simps trim_examples)
  have rd: "readProjects (disk_of [wetland]) = Inr [wetland]"
    by (simp add: readProjects_def disk_of_def)
  have wf: "list_all wf_record [wetland]"
    by (simp add: wetland_def)
  have dup: "\<exists>p \<in> set [wetland]. toLowerCase (record_title p) =
               toLowerCase (trim (string_of (map_of ?body ''title'')))"
    by (simp add: wetland_def lower_examples trim_examples)
  show ?thesis
    using valid duplicate_title_rejected [OF valid rd wf dup] by simp
qed

text \<open>A candidate with the title of the wetland record in another case and a file that is
  not a URL is answered 400, not 409.\<close>

theorem duplicate_title_invalid_file_counterexample:
  "status (response (append_record test_env (disk_of [wetland])
      [(''title'', JStr ''wetland survey''), (''file'', JStr ''not a url'')])) = 400 \<and>
   toLowerCase ''wetland survey'' = toLowerCase (record_title wetland)"
  by (simp add: append_record_def validateProject_def missing_or_blank_def test_env_simps
        wetland_def lower_examples trim_examples)

text \<open>
  Claim C7, as amended. For every catalog of well-formed records and every candidate that
  passes validation and whose trimmed title is, case-insensitively, the title of no existing
  record, an append whose write succeeds answers 201 with the stored record, and the catalog
  read afterwards is the old one followed by that record: the candidate's title and file with
  the surrounding blanks trimmed, its tags normalized, and the time of the call as
  \<^verbatim>\<open>createdAt\<close>. It is the last element, and the only record of the new catalog with that
  title in any case. The claim as stated has the title and the file stored as given.
\<close>

theorem append_round_trip:
  assumes valid: "validateProject env reqBody = Inr newProject"
    and rd: "readProjects d = Inr projects"
    and wf: "list_all wf_record projects"
    and fresh: "\<forall>p \<in> set projects.
                 toLowerCase (record_title p) \<noteq>
                 toLowerCase (trim (string_of (map_of reqBody ''title'')))"
    and wr: "write_result env = None"
  shows "response (append_record env d reqBody) =
           \<lparr>status = 201,
            body = JObj [(''success'', JBool True),
                         (''message'', JStr ''Project added successfully''),
                         (''project'', record_as_stored env reqBody),
                         (''totalProjects'', JNum (real (length projects + 1)))]\<rparr> \<and>
         readProjects (disk_after (append_record env d reqBody)) =
           Inr (projects @ [record_as_stored env reqBody]) \<and>
         length (filter (\<lambda>p. toLowerCase (record_title p) =
                             toLowerCase (trim (string_of (map_of reqBody ''title''))))
                   (projects @ [record_as_stored env reqBody])) = 1"
proof -
  let ?t = "trim (string_of (map_of reqBody ''title''))"
  let ?stored = "record_as_stored env reqBody"
  have "js_find (same_title (Some (JStr ?t))) projects = Inr None"
    by (rule js_find_no_match) (use wf fresh in \<open>simp add: list_all_iff same_title_wf\<close>)
  then have find: "js_find (same_title (map_of newProject ''title'')) projects = Inr None"
    by (simp add: newProject_title [OF valid])
  have out: "append_record env d reqBody =
        \<lparr>response = \<lparr>status = 201,
            body = JObj [(''success'', JBool True),
                         (''message'', JStr ''Project added successfully''),
                         (''project'', ?stored),
                         (''totalProjects'', JNum (real (length (projects @ [?stored]))))]\<rparr>,
         disk_after = (backup env d)\<lparr>projects_file := Doc (JArr (projects @ [?stored]))\<rparr>,
         ops = [ReadFile, CopyFile, WriteFile]\<rparr>"
    by (simp add: append_record_def valid post_handler_def rd find Let_def
          writeProjects_ok [OF wr] stored_is_record_as_stored [OF valid])
  have "filter (\<lambda>p. toLowerCase (record_title p) = toLowerCase ?t) projects = []"
    using fresh by (simp add: filter_empty_conv)
  then have one: "length (filter (\<lambda>p. toLowerCase (record_title p) = toLowerCase ?t)
                     (projects @ [?stored])) = 1"
    by (simp add: record_as_stored_title)
  show ?thesis
    using one by (simp add: out readProjects_Doc)
qed

theorem append_round_trip_witness:
  "validateProject test_env
     [(''title'', JStr '' Forest Plan ''), (''file'', JStr ''https://x/f.pdf''),
      (''tags'', JArr [JStr '' habitat '', JNum 7, JStr ''   ''])] =
   Inr [(''title'', JStr ''Forest Plan''), (''file'', JStr ''https://x/f.pdf''),
        (''tags'', JArr [JStr ''habitat''])] \<and>
   readProjects (disk_after (append_record test_env (disk_of [wetland])
     [(''title'', JStr '' Forest Plan ''), (''file'', JStr ''https://x/f.pdf''),
      (''tags'', JArr [JStr '' habitat '', JNum 7, JStr ''   ''])])) =
   Inr [wetland,
        JObj [(''title'', JStr ''Forest Plan''), (''file'', JStr ''https://x/f.pdf''),
              (''tags'', JArr [JStr ''habitat'']),
              (''createdAt'', JStr ''2024-05-01T10:00:00.000Z'')]]"
proof -
  let ?body = "[(''title'', JStr '' Forest Plan ''), (''file'', JStr ''https://x/f.pdf''),
      (''tags'', JArr [JStr '' habitat '', JNum 7, JStr ''   ''])]"
  have valid: "validateProject test_env ?body =
      Inr [(''title'', JStr ''Forest Plan''), (''file'', JStr ''https://x/f.pdf''),
           (''tags'', JArr [JStr ''habitat''])]"
    by (simp add: validateProject_def missing_or_blank_def test_env_simps trim_examples)
  have rd: "readProjects (disk_of [wetland]) = Inr [wetland]"
    by (simp add: readProjects_def disk_of_def)
  have wf: "list_all wf_record [wetland]"
    by (simp add: wetland_def)
  have fresh: "\<forall>p \<in> set [wetland]. toLowerCase (record_title p) \<noteq>
               toLowerCase (trim (string_of (map_of ?body ''title'')))"
    by (simp add: wetland_def lower_examples trim_examples)
  have wr: "write_result test_env = None" by (simp add: test_env_simps)
  show ?thesis
    using valid append_round_trip [OF valid rd wf fresh wr]
    by (simp add: record_as_stored_def test_env_simps trim_examples)
qed

text \<open>A valid candidate whose title has surrounding blanks: the catalog read afterwards holds
  one record, and its title is not the candidate's.\<close>

theorem append_trims_title_counterexample:
  "status (response (append_record test_env (disk_of [])
      [(''title'', JStr '' Forest Plan ''), (''file'', JStr ''https://x/f.pdf'')])) = 201 \<and>
   readProjects (disk_after (append_record test_env (disk_of [])
      [(''title'', JStr '' Forest Plan ''), (''file'', JStr ''https://x/f.pdf'')])) =
     Inr [JObj [(''title'', JStr ''Forest Plan''), (''file'', JStr ''https://x/f.pdf''),
                (''tags'', JArr []), (''createdAt'', JStr ''2024-05-01T10:00:00.000Z'')]] \<and>
   ''Forest Plan'' \<noteq> '' Forest Plan ''"
  by (simp add: append_record_def validateProject_def missing_or_blank_def test_env_simps
        post_handler_def readProjects_def disk_of_def writeProjects_def backup_def
        trim_examples Let_def)

subsection \<open>Deleting\<close>

text \<open>What the callback of \<^verbatim>\<open>findIndex\<close> answers, in terms of the record: it answers
  only on a record with a string title, and it answers whether the case-folded title is the
  case-folded \<open>t\<close>.\<close>

lemma call_toLowerCase_Inr:
  "call_toLowerCase v = Inr l \<Longrightarrow> \<exists>s. v = Some (JStr s) \<and> l = toLowerCase s"
  by (cases v rule: call_toLowerCase.cases) auto

lemma same_title_Inr:
  assumes "same_title (Some (JStr t)) p = Inr b"
  shows "has_title p \<and> b = (toLowerCase (record_title p) = toLowerCase t)"
proof -
  from assms obtain fs where p: "p = JObj fs"
    by (cases p) (auto simp: same_title_def)
  from assms p obtain l where l: "call_toLowerCase (map_of fs ''title'') = Inr l"
    by (auto simp: same_title_def split: sum.splits)
  from call_toLowerCase_Inr [OF l] obtain s where
    s: "map_of fs ''title'' = Some (JStr s)" "l = toLowerCase s"
    by blast
  with assms p show ?thesis by (auto simp: same_title_def)
qed

lemma js_findIndex_total:
  "(\<And>x. x \<in> set xs \<Longrightarrow> \<exists>b. f x = Inr b) \<Longrightarrow> \<exists>r. js_findIndex f xs = Inr r"
proof (induction xs)
  case Nil
  then show ?case by simp
next
  case (Cons x xs)
  then obtain b where b: "f x = Inr b" by force
  from Cons obtain r where "js_findIndex f xs = Inr r" by force
  with b show ?case by (cases r) auto
qed

text \<open>
  Claim C9. A delete that answers 200 has removed exactly one record, the first whose
  case-folded title equals the case-folded title to delete (the title that the handler gets
  by decoding the route parameter): the old catalog is \<open>pre @ p # post\<close>, where \<open>p\<close> has a
  string title that equals \<open>t\<close> once both are case-folded and every record of \<open>pre\<close> has a
  string title that does not; the catalog read afterwards is \<open>pre @ post\<close>, the other
  records unchanged and in their order; and the response carries \<open>p\<close> as
  \<^verbatim>\<open>deletedProject\<close>.
\<close>

theorem delete_removes_first_match:
  assumes ok: "status (response (deleteByTitle env d param)) = 200"
    and rd: "readProjects d = Inr projects"
  shows "\<exists>t pre p post.
           decode_uri env param = Some t \<and>
           projects = pre @ p # post \<and>
           has_title p \<and> toLowerCase (record_title p) = toLowerCase t \<and>
           (\<forall>q \<in> set pre. has_title q \<and> toLowerCase (record_title q) \<noteq> toLowerCase t) \<and>
           readProjects (disk_after (deleteByTitle env d param)) = Inr (pre @ post) \<and>
           response (deleteByTitle env d param) =
             \<lparr>status = 200,
              body = JObj [(''success'', JBool True),
                           (''message'', JStr ''Project deleted successfully''),
                           (''deletedProject'', p),
                           (''totalProjects'', JNum (real (length (pre @ post))))]\<rparr>"
proof -
  from ok obtain t where t: "decode_uri env param = Some t"
    by (cases "decode_uri env param") (auto simp: deleteByTitle_def internal_error_def)
  from ok t rd obtain i where i: "js_findIndex (same_title (Some (JStr t))) projects = Inr (Some i)"
    by (auto simp: deleteByTitle_def internal_error_def split: sum.splits option.splits)
  from ok t rd i have wr: "write_result env = None"
    by (cases "write_result env")
       (auto simp: deleteByTitle_def internal_error_def writeProjects_def Let_def)
  from js_findIndex_Some [OF i] have
    len: "i < length projects" and
    hit: "same_title (Some (JStr t)) (projects ! i) = Inr True" and
    before: "\<forall>q \<in> set (take i projects). same_title (Some (JStr t)) q = Inr False"
    by auto
  let ?pre = "take i projects" and ?p = "projects ! i" and ?post = "drop (Suc i) projects"
  have split: "projects = ?pre @ ?p # ?post"
    using len by (simp add: id_take_nth_drop)
  have out: "deleteByTitle env d param =
        \<lparr>response = \<lparr>status = 200,
              body = JObj [(''success'', JBool True),
                           (''message'', JStr ''Project deleted successfully''),
                           (''deletedProject'', ?p),
                           (''totalProjects'', JNum (real (length (?pre @ ?post))))]\<rparr>,
         disk_after = (backup env d)\<lparr>projects_file := Doc (JArr (?pre @ ?post))\<rparr>,
         ops = [ReadFile, CopyFile, WriteFile]\<rparr>"
    by (simp add: deleteByTitle_def t rd i Let_def writeProjects_ok [OF wr])
  have "has_title ?p \<and> toLowerCase (record_title ?p) = toLowerCase t"
    using same_title_Inr [OF hit] by simp
  moreover have "\<forall>q \<in> set ?pre. has_title q \<and> toLowerCase (record_title q) \<noteq> toLowerCase t"
    using before same_title_Inr by blast
  moreover have "readProjects (disk_after (deleteByTitle env d param)) = Inr (?pre @ ?post)"
    by (simp add: out readProjects_Doc)
  ultimately show ?thesis
    using t split out by (intro exI [of _ t] exI [of _ ?pre] exI [of _ ?p] exI [of _ ?post]) simp
qed

text \<open>Of two records titled \<^verbatim>\<open>Report\<close> and \<^verbatim>\<open>report\<close> with another between them, the
  first goes and the other two stay, in order.\<close>

theorem delete_removes_first_match_witness:
  "status (response (deleteByTitle test_env (disk_of [report_upper, wetland, report_lower]) ''report'')) = 200 \<and>
   readProjects (disk_after (deleteByTitle test_env (disk_of [report_upper, wetland, report_lower]) ''report''))
     = Inr [wetland, report_lower] \<and>
   response (deleteByTitle test_env (disk_of [report_upper, wetland, report_lower]) ''report'') =
     \<lparr>status = 200,
      body = JObj [(''success'', JBool True),
                   (''message'', JStr ''Project deleted successfully''),
                   (''deletedProject'', report_upper),
                   (''totalProjects'', JNum 2)]\<rparr>"
proof -
  have rd: "readProjects (disk_of [report_upper, wetland, report_lower]) =
            Inr [report_upper, wetland, report_lower]"
    by (simp add: readProjects_def disk_of_def)
  have ok: "status (response (deleteByTitle test_env (disk_of [report_upper, wetland, report_lower]) ''report'')) = 200"
    by (simp add: deleteByTitle_def test_env_simps decode_examples readProjects_def disk_of_def
          same_title_def report_upper_def wetland_def writeProjects_def backup_def
          lower_examples Let_def)
  have first: "toLowerCase (record_title report_upper) = toLowerCase ''report''"
    by (simp add: report_upper_def lower_examples)
  from delete_removes_first_match [OF ok rd] obtain t pre p post where
    t: "decode_uri test_env ''report'' = Some t" and
    split: "[report_upper, wetland, report_lower] = pre @ p # post" and
    before: "\<forall>q \<in> set pre. has_title q \<and> toLowerCase (record_title q) \<noteq> toLowerCase t" and
    after: "readProjects (disk_after (deleteByTitle test_env
              (disk_of [report_upper, wetland, report_lower]) ''report'')) = Inr (pre @ post)" and
    resp: "response (deleteByTitle test_env (disk_of [report_upper, wetland, report_lower]) ''report'') =
             \<lparr>status = 200,
              body = JObj [(''success'', JBool True),
                           (''message'', JStr ''Project deleted successfully''),
                           (''deletedProject'', p),
                           (''totalProjects'', JNum (real (length (pre @ post))))]\<rparr>"
    by blast
  from t have t': "t = ''report''" by (simp add: test_env_simps decode_examples)
  have pre: "pre = []"
  proof (cases pre)
    case (Cons x xs)
    with split have "x = report_upper" by simp
    with Cons before first t' show ?thesis by simp
  qed simp
  with split have "p = report_upper" "post = [wetland, report_lower]" by simp_all
  with pre after ok resp show ?thesis by simp
qed

lemma filter_at_most_one_post:
  assumes "length (filter P (pre @ p # post)) \<le> 1" and "P p"
  shows "\<forall>q \<in> set post. \<not> P q"
proof -
  from assms have "length (filter P post) = 0" by simp
  then show ?thesis by (simp add: filter_empty_conv)
qed

text \<open>A catalog that keeps the uniqueness invariant has at most one record for a title.\<close>

lemma unique_titles_at_most_one:
  assumes "distinct (map (\<lambda>p. toLowerCase (record_title p)) ps)"
  shows "length (filter (\<lambda>p. toLowerCase (record_title p) = toLowerCase t) ps) \<le> 1"
  using assms
proof (induction ps)
  case Nil
  then show ?case by simp
next
  case (Cons p ps)
  then have IH: "length (filter (\<lambda>p. toLowerCase (record_title p) = toLowerCase t) ps) \<le> 1"
    by simp
  show ?case
  proof (cases "toLowerCase (record_title p) = toLowerCase t")
    case False
    with IH show ?thesis by simp
  next
    case True
    with Cons.prems have "\<forall>q \<in> set ps. toLowerCase (record_title q) \<noteq> toLowerCase t"
      by (auto simp: image_iff)
    then have "filter (\<lambda>p. toLowerCase (record_title p) = toLowerCase t) ps = []"
      by (simp add: filter_empty_conv)
    with True show ?thesis by simp
  qed
qed

text \<open>
  Claim C3, as amended. For every catalog of well-formed records in which at most one record
  has the case-folded title of \<open>t\<close>, as in every catalog that keeps the uniqueness
  invariant, and for every title \<open>t\<close> that \<^verbatim>\<open>decodeURIComponent\<close> leaves as it is, a delete
  of \<open>t\<close> whose write succeeds leaves a catalog that reads without error and holds no
  record whose case-folded title equals the case-folded \<open>t\<close>. The claim as stated is about
  catalogs of any contents; the delete removes one record, the first. The handler decodes the
  route parameter, which Express has decoded already, a second time; what that does to a title
  with a \<^verbatim>\<open>%\<close> is shown after the theorem and is no part of it.
\<close>

theorem delete_then_list:
  assumes same: "decode_uri env t = Some t"
    and rd: "readProjects d = Inr projects"
    and wf: "list_all wf_record projects"
    and uniq: "length (filter (\<lambda>p. toLowerCase (record_title p) = toLowerCase t) projects) \<le> 1"
    and wr: "write_result env = None"
  shows "\<exists>projects'.
           readProjects (disk_after (deleteByTitle env d t)) = Inr projects' \<and>
           (\<forall>p \<in> set projects'. toLowerCase (record_title p) \<noteq> toLowerCase t)"
proof -
  have cb: "\<And>p. p \<in> set projects \<Longrightarrow>
              same_title (Some (JStr t)) p =
              Inr (toLowerCase (record_title p) = toLowerCase t)"
    using wf by (simp add: list_all_iff same_title_wf)
  then obtain found where
    found: "js_findIndex (same_title (Some (JStr t))) projects = Inr found"
    using js_findIndex_total [of projects "same_title (Some (JStr t))"] by blast
  show ?thesis
  proof (cases found)
    case None
    with found have "\<forall>q \<in> set projects. same_title (Some (JStr t)) q = Inr False"
      using js_findIndex_None by blast
    with cb have "\<forall>p \<in> set projects. toLowerCase (record_title p) \<noteq> toLowerCase t"
      by auto
    moreover have "disk_after (deleteByTitle env d t) = d"
      using found None same rd by (simp add: deleteByTitle_def)
    ultimately show ?thesis using rd by simp
  next
    case (Some i)
    with found have i: "js_findIndex (same_title (Some (JStr t))) projects = Inr (Some i)"
      by simp
    from js_findIndex_Some [OF i] have
      len: "i < length projects" and
      hit: "same_title (Some (JStr t)) (projects ! i) = Inr True" and
      before: "\<forall>q \<in> set (take i projects). same_title (Some (JStr t)) q = Inr False"
      by auto
    have split: "projects = take i projects @ projects ! i # drop (Suc i) projects"
      using len by (simp add: id_take_nth_drop)
    have hit': "toLowerCase (record_title (projects ! i)) = toLowerCase t"
      using hit cb [of "projects ! i"] len by simp
    have before': "\<forall>q \<in> set (take i projects). toLowerCase (record_title q) \<noteq> toLowerCase t"
    proof
      fix q assume q: "q \<in> set (take i projects)"
      then have "q \<in> set projects" by (rule in_set_takeD)
      with cb [of q] before q show "toLowerCase (record_title q) \<noteq> toLowerCase t" by simp
    qed
    have after: "\<forall>q \<in> set (drop (Suc i) projects). toLowerCase (record_title q) \<noteq> toLowerCase t"
      by (rule filter_at_most_one_post [of _ "take i projects" "projects ! i"])
         (use uniq hit' split in auto)
    have "readProjects (disk_after (deleteByTitle env d t)) =
          Inr (take i projects @ drop (Suc i) projects)"
      by (simp add: deleteByTitle_def same rd i Let_def writeProjects_ok [OF wr]
            readProjects_Doc)
    with before' after show ?thesis by auto
  qed
qed

theorem delete_then_list_witness:
  "decode_uri test_env ''wetland survey'' = Some ''wetland survey'' \<and>
   list_all wf_record [report_upper, wetland] \<and>
   status (response (deleteByTitle test_env (disk_of [report_upper, wetland]) ''wetland survey'')) = 200 \<and>
   readProjects (disk_after (deleteByTitle test_env (disk_of [report_upper, wetland]) ''wetland survey''))
     = Inr [report_upper] \<and>
   toLowerCase (record_title report_upper) \<noteq> toLowerCase ''wetland survey''"
proof -
  have same: "decode_uri test_env ''wetland survey'' = Some ''wetland survey''"
    by (simp add: test_env_simps decode_examples)
  have rd: "readProjects (disk_of [report_upper, wetland]) = Inr [report_upper, wetland]"
    by (simp add: readProjects_def disk_of_def)
  have wf: "list_all wf_record [report_upper, wetland]"
    by (simp add: report_upper_def wetland_def)
  have uniq: "length (filter (\<lambda>p. toLowerCase (record_title p) = toLowerCase ''wetland survey'')
                 [report_upper, wetland]) \<le> 1"
    by (simp add: report_upper_def wetland_def lower_examples)
  have wr: "write_result test_env = None" by (simp add: test_env_simps)
  have run: "deleteByTitle test_env (disk_of [report_upper, wetland]) ''wetland survey'' =
      \<lparr>response = \<lparr>status = 200,
           body = JObj [(''success'', JBool True),
                        (''message'', JStr ''Project deleted successfully''),
                        (''deletedProject'', wetland),
                        (''totalProjects'', JNum 1)]\<rparr>,
       disk_after = \<lparr>projects_file = Doc (JArr [report_upper]),
                     backups = [(1714557600000, Doc (JArr [report_upper, wetland]))]\<rparr>,
       ops = [ReadFile, CopyFile, WriteFile]\<rparr>"
    by (simp add: deleteByTitle_def test_env_simps decode_examples readProjects_def disk_of_def
          same_title_def report_upper_def wetland_def writeProjects_def backup_def
          lower_examples Let_def)
  show ?thesis
    using same wf delete_then_list [OF same rd wf uniq wr]
    by (simp add: run readProjects_def)
qed

text \<open>With two records titled \<^verbatim>\<open>Report\<close> and \<^verbatim>\<open>report\<close>, a delete of \<^verbatim>\<open>report\<close> answers
  200 and the catalog read afterwards still holds the record titled \<^verbatim>\<open>report\<close>.\<close>

theorem delete_duplicate_title_counterexample:
  "status (response (deleteByTitle test_env (disk_of [report_upper, report_lower]) ''report'')) = 200 \<and>
   readProjects (disk_after (deleteByTitle test_env (disk_of [report_upper, report_lower]) ''report''))
     = Inr [report_lower] \<and>
   record_title report_lower = ''report'' \<and>
   toLowerCase (record_title report_lower) = toLowerCase ''report''"
  by (simp add: deleteByTitle_def test_env_simps decode_examples readProjects_def disk_of_def
        same_title_def report_upper_def report_lower_def writeProjects_def backup_def
        lower_examples Let_def)

text \<open>The second decoding. A delete of the title \<^verbatim>\<open>a%20b\<close>, sent as the segment
  \<^verbatim>\<open>a%2520b\<close>, removes the record titled \<^verbatim>\<open>a b\<close> and leaves the one that was asked for; a
  delete of the title \<^verbatim>\<open>100%\<close>, sent as \<^verbatim>\<open>100%25\<close>, is answered 500 and removes
  nothing.\<close>

lemma delete_decodes_again:
  "status (response (DELETE_api_projects test_env (disk_of [plain_title, escaped_title])
     (Some ''Bearer s3cret'') ''a%2520b'' NoJson)) = 200"
  "readProjects (disk_after (DELETE_api_projects test_env (disk_of [plain_title, escaped_title])
     (Some ''Bearer s3cret'') ''a%2520b'' NoJson)) = Inr [escaped_title]"
  "record_title escaped_title = ''a%20b''"
  by (simp_all add: DELETE_api_projects_def authenticateToken_def bearer_token_def nth_opt_def
        deleteByTitle_def test_env_simps decode_examples readProjects_def disk_of_def
        same_title_def plain_title_def escaped_title_def writeProjects_def backup_def
        lower_examples Let_def)

lemma delete_percent_title_fails:
  "DELETE_api_projects test_env (disk_of [percent_title]) (Some ''Bearer s3cret'') ''100%25'' NoJson
   = \<lparr>response = internal_error ''Failed to delete project'',
      disk_after = disk_of [percent_title], ops = []\<rparr>"
  by (simp add: DELETE_api_projects_def authenticateToken_def bearer_token_def nth_opt_def
        deleteByTitle_def test_env_simps decode_examples)

section \<open>The scenarios of the specification\<close>

text \<open>The model on the scenarios that the specification lists: the search terms
  \<^verbatim>\<open>wetland\<close> and \<^verbatim>\<open>forest\<close>, the filters \<^verbatim>\<open>gis\<close> and \<^verbatim>\<open>ocean\<close>, the append of
  the title in another case and the delete of it.\<close>

lemma view_scenarios:
  "filterProjects (view_of [wetland] {}) ''wetland'' = Inr (view_of [wetland] {})"
  "filterProjects (view_of [wetland] {}) ''forest'' =
     Inr ((view_of [wetland] {})\<lparr>filteredProjects := []\<rparr>)"
  "filterProjects (view_of [wetland] {''gis''}) [] = Inr (view_of [wetland] {''gis''})"
  "filterProjects (view_of [wetland] {''ocean''}) [] =
     Inr ((view_of [wetland] {''ocean''})\<lparr>filteredProjects := []\<rparr>)"
  by (simp_all add: filterProjects_def keep_project_def tags_some_def wetland_def view_of_def
        lower_examples trim_examples)

lemma store_scenarios:
  "status (response (POST_api_projects test_env (disk_of [wetland]) (Some ''Bearer s3cret'')
     (Json [(''title'', JStr ''wetland survey''), (''file'', JStr ''https://x/b.pdf'')]))) = 409"
  "status (response (DELETE_api_projects test_env (disk_of [wetland]) (Some ''Bearer s3cret'')
     ''wetland%20survey'' NoJson)) = 200"
  "readProjects (disk_after (DELETE_api_projects test_env (disk_of [wetland])
     (Some ''Bearer s3cret'') ''wetland%20survey'' NoJson)) = Inr []"
  by (simp_all add: POST_api_projects_def DELETE_api_projects_def authenticateToken_def
        bearer_token_def nth_opt_def test_env_simps decode_examples append_record_def
        validateProject_def missing_or_blank_def post_handler_def deleteByTitle_def
        readProjects_def disk_of_def same_title_def wetland_def writeProjects_def backup_def
        Let_def lower_examples trim_examples)

end
